theory Spec2Isabelle
  imports Main
begin

unbundle bit_operations_syntax

section \<open>The query path of psycopg (pqpath.c)\<close>

text \<open>
  This theory embeds the functions of \<^verbatim>\<open>psycopg/pqpath.c\<close> that classify backend
  errors, manage the critical flag of a connection, bracket transactions, execute
  queries, fetch results and stream COPY data, and proves properties of them.

  Conventions of the embedding.
  \<^item> A C string is the list of its bytes before the terminating NUL, so \<open>strlen\<close> is
    \<open>length\<close> and the byte at index \<open>length s\<close> is NUL. A pointer that may be \<open>NULL\<close> is an
    \<open>option\<close>.
  \<^item> The C \<open>int\<close> and \<open>long\<close> values are HOL integers. The arithmetic of the file is
    \<open>mark += 1\<close>, \<open>1 - async\<close> and the decoding of a column's type modifier; signed
    overflow is undefined in C and is not given a meaning here. The one conversion
    that loses bits, the \<open>int\<close> that \<open>atoi\<close> returns, is written out.
  \<^item> Reference counts, the interpreter lock, the connection mutex and the debug
    printing (\<open>Dprintf\<close>) have no counterpart: the functions are modelled as run by one
    thread.
\<close>

subsection \<open>C strings\<close>

definition cchar :: "string \<Rightarrow> nat \<Rightarrow> char" where
  \<comment> \<open>\<open>s[i]\<close> for \<open>i \<le> strlen s\<close>: the byte at \<open>strlen s\<close> is the terminator.\<close>
  "cchar s i = (if i < length s then s ! i else CHR 0x00)"

definition strncmp_eq :: "string \<Rightarrow> string \<Rightarrow> nat \<Rightarrow> bool" where
  \<comment> \<open>\<open>strncmp(a, b, n) == 0\<close>: the strings agree on their first \<open>n\<close> bytes (or are equal
      and shorter).\<close>
  "strncmp_eq a b n = (take n a = take n b)"

fun strstr :: "string \<Rightarrow> string \<Rightarrow> bool" where
  \<comment> \<open>\<open>strstr(hay, needle) != NULL\<close>: the needle occurs in the haystack.\<close>
  "strstr [] needle = (needle = [])"
| "strstr (c # cs) needle = (take (length needle) (c # cs) = needle \<or> strstr cs needle)"

subsection \<open>Exceptions\<close>

text \<open>
  The exception classes of the module that pqpath.c raises. \<open>AttributeError\<close> is what
  \<open>PyObject_GetAttrString\<close> leaves when the attribute is missing, and \<open>CallbackError\<close>
  stands for whatever exception a Python callable (the \<open>read\<close> or \<open>write\<close> of a
  file object, the wait callback) raised.
\<close>

datatype exception =
    Error
  | DatabaseError
  | NotSupportedError
  | ProgrammingError
  | DataError
  | IntegrityError
  | InternalError
  | OperationalError
  | TransactionRollbackError
  | QueryCanceledError
  | AttributeError
  | CallbackError

subsection \<open>strip_severity\<close>

definition strip_severity :: "string option \<Rightarrow> string option" where
  "strip_severity msg =
     (case msg of
        None \<Rightarrow> None
      | Some m \<Rightarrow>
          if length m > 8 \<and> (strncmp_eq m ''ERROR:  '' 8 \<or>
                              strncmp_eq m ''FATAL:  '' 8 \<or>
                              strncmp_eq m ''PANIC:  '' 8)
          then Some (drop 8 m)
          else Some m)"

subsection \<open>exception_from_sqlstate\<close>

text \<open>
  Whether the file is compiled with \<open>PSYCOPG_EXTENSIONS\<close> is decided outside pqpath.c;
  the flag is the first argument.
  A \<open>break\<close> out of an inner \<open>switch\<close> reaches the final \<open>return DatabaseError\<close>.
\<close>

definition exception_from_sqlstate :: "bool \<Rightarrow> string \<Rightarrow> exception" where
  "exception_from_sqlstate extensions sqlstate =
     (let c0 = cchar sqlstate 0; c1 = cchar sqlstate 1 in
      if c0 = CHR ''0'' then
        (if c1 = CHR ''A'' then NotSupportedError
         else DatabaseError)
      else if c0 = CHR ''2'' then
        (if c1 = CHR ''1'' then ProgrammingError
         else if c1 = CHR ''2'' then DataError
         else if c1 = CHR ''3'' then IntegrityError
         else if c1 = CHR ''4'' \<or> c1 = CHR ''5'' then InternalError
         else if c1 = CHR ''6'' \<or> c1 = CHR ''7'' \<or> c1 = CHR ''8'' then OperationalError
         else if c1 = CHR ''B'' \<or> c1 = CHR ''D'' \<or> c1 = CHR ''F'' then InternalError
         else DatabaseError)
      else if c0 = CHR ''3'' then
        (if c1 = CHR ''4'' then OperationalError
         else if c1 = CHR ''8'' \<or> c1 = CHR ''9'' \<or> c1 = CHR ''B'' then InternalError
         else if c1 = CHR ''D'' \<or> c1 = CHR ''F'' then ProgrammingError
         else DatabaseError)
      else if c0 = CHR ''4'' then
        (if c1 = CHR ''0'' then
           (if extensions then TransactionRollbackError else OperationalError)
         else if c1 = CHR ''2'' \<or> c1 = CHR ''4'' then ProgrammingError
         else DatabaseError)
      else if c0 = CHR ''5'' then
        (if extensions \<and> sqlstate = ''57014'' then QueryCanceledError
         else OperationalError)
      else if c0 = CHR ''F'' then InternalError
      else if c0 = CHR ''P'' then InternalError
      else if c0 = CHR ''X'' then InternalError
      else DatabaseError)"

text \<open>
  The class table as the specification words it (section 4.2), for comparison with the
  function above: class code to kind, \<open>None\<close> for a class the table does not list.
\<close>

definition spec_class_table :: "string \<Rightarrow> exception option" where
  "spec_class_table cls =
     map_of
       [(''0A'', NotSupportedError),
        (''21'', ProgrammingError),
        (''22'', DataError),
        (''23'', IntegrityError),
        (''24'', InternalError), (''25'', InternalError),
        (''26'', OperationalError), (''27'', OperationalError), (''28'', OperationalError),
        (''2B'', InternalError), (''2D'', InternalError), (''2F'', InternalError),
        (''34'', OperationalError),
        (''38'', InternalError), (''39'', InternalError), (''3B'', InternalError),
        (''3D'', ProgrammingError), (''3F'', ProgrammingError),
        (''40'', TransactionRollbackError),
        (''42'', ProgrammingError), (''44'', ProgrammingError),
        (''53'', OperationalError), (''54'', OperationalError), (''55'', OperationalError),
        (''57'', OperationalError), (''58'', OperationalError),
        (''F0'', InternalError), (''P0'', InternalError), (''XX'', InternalError)]
       cls"

subsection \<open>libpq: results and the connection handle\<close>

text \<open>
  libpq is outside the repository. A \<open>PGresult\<close> is the record of what its accessor
  functions return for it (\<open>PQresultStatus\<close>, \<open>PQresultErrorMessage\<close>,
  \<open>PQresultErrorField\<close> for \<open>PG_DIAG_SQLSTATE\<close>, \<open>PQcmdStatus\<close>, \<open>PQcmdTuples\<close>,
  \<open>PQoidValue\<close>, \<open>PQbinaryTuples\<close>, \<open>PQntuples\<close>, and per column \<open>PQfname\<close>,
  \<open>PQftype\<close>, \<open>PQfsize\<close>, \<open>PQfmod\<close>, per cell \<open>PQgetlength\<close>).
\<close>

datatype ExecStatusType =
    PGRES_EMPTY_QUERY
  | PGRES_COMMAND_OK
  | PGRES_TUPLES_OK
  | PGRES_COPY_OUT
  | PGRES_COPY_IN
  | PGRES_BAD_RESPONSE
  | PGRES_NONFATAL_ERROR
  | PGRES_FATAL_ERROR

datatype ConnStatusType = CONNECTION_OK | CONNECTION_BAD | CONNECTION_STARTED

record pgfield =
  fname :: string
  ftype :: nat
  fsize :: int
  fmod :: int

record PGresult =
  resultStatus :: ExecStatusType
  resultErrorMessage :: "string option"
  resultSqlstate :: "string option"
  cmdStatus :: string
  cmdTuples :: "string option"
  oidValue :: nat
  binaryTuples :: bool
  ntuples :: int
  pgfields :: "pgfield list"
  cell_lengths :: "int list list"

text \<open>
  The calls that transmit something to the backend are logged, in order, in \<open>sent\<close>.
\<close>

datatype pq_call =
    Exec "string option"
  | SendQuery string
  | PutCopyData string
  | PutCopyEnd "string option"
  | Putline string
  | Endcopy

text \<open>
  The connection handle is the backend as the client sees it: what \<open>PQstatus\<close> and
  \<open>PQerrorMessage\<close> report, and for each libpq call the answers the backend will give,
  in order. A call takes the next answer of its list. Once a list is used up the call
  answers as libpq does when nothing more is there: \<open>PQexec\<close> and \<open>PQgetResult\<close> return
  \<open>NULL\<close>, \<open>PQgetCopyData\<close> reports the end of the copy (\<open>-1\<close>), \<open>PQgetline\<close> the end
  of input (\<open>EOF\<close>, \<open>-1\<close>), and the sending calls report success (\<open>PQsendQuery\<close> 1,
  \<open>PQflush\<close> 0, \<open>PQputCopyData\<close> 1, \<open>PQputCopyEnd\<close> 1, \<open>PQputline\<close> 0,
  \<open>PQendcopy\<close> 0). The lists are finite, so every loop over backend answers ends.
  An answer does not depend on what the call is given: whatever is sent, the answers
  are the listed ones.
  libpq also runs the notice handler of the connection inside its calls, and the
  handler can store a critical message on the connection (see the notice handler
  below). For the calls in which the answer of the backend to a command is read,
  \<open>PQexec\<close> and \<open>PQendcopy\<close> (the end of a protocol-2 copy, whose errors arrive as
  notices only), the handle lists what the handler stores during each call: the
  messages it hands to \<open>pq_set_critical\<close>, in order, none once the list is used up. The
  other calls are modelled without the handler, and no statement below rests on that:
  what is proved of the copy functions and of an asynchronous submission does not
  mention the critical message, and what is proved of \<open>pq_execute\<close> for a COPY result is
  stated for whatever critical message the copy function leaves.
\<close>

record PGconn =
  connStatus :: ConnStatusType
  errorMessage :: "string option"
  exec_answers :: "PGresult option list"
  exec_notices :: "string list list"
  result_queue :: "PGresult list"
  sendQuery_answers :: "int list"
  flush_answers :: "int list"
  putCopyData_answers :: "int list"
  putCopyEnd_answers :: "int list"
  getCopyData_answers :: "(int \<times> string option) list"
  putline_answers :: "int list"
  getline_answers :: "(int \<times> string) list"
  endcopy_answers :: "int list"
  endcopy_notices :: "string list list"
  sent :: "pq_call list"

definition next_answer :: "'a \<Rightarrow> 'a list \<Rightarrow> 'a" where
  "next_answer d xs = (case xs of [] \<Rightarrow> d | x # _ \<Rightarrow> x)"

subsection \<open>Python objects\<close>

text \<open>
  What a call of a Python callable returns: a string, another object (for the checked
  path of \<open>_pq_copy_in_v3\<close> every object that is not a string behaves as \<open>None\<close> does),
  or \<open>NULL\<close> with an exception set.
\<close>

datatype py_object = PyString string | PyNone | PyNULL

text \<open>
  The file object of a COPY (\<open>curs->copyfile\<close>): whether it has the attributes the copy
  functions look up, what its \<open>read\<close> and \<open>readline\<close> will return (a file that is used
  up returns the empty string), whether each \<open>write\<close> succeeds (\<open>True\<close>; a list that is
  used up means success), and the strings written so far.
\<close>

record pyfile =
  has_read :: bool
  has_readline :: bool
  has_write :: bool
  read_answers :: "py_object list"
  readline_answers :: "py_object list"
  write_answers :: "bool list"
  written :: "string list"

text \<open>
  The error indicator of the interpreter, as \<open>psyco_set_error\<close> fills it. The message
  is \<open>None\<close> when the C code hands over \<open>NULL\<close> or a pointer to no defined string.
\<close>

record py_error =
  exc_type :: exception
  exc_msg :: "string option"
  exc_pgerror :: "string option"
  exc_pgcode :: "string option"

datatype typecast = psyco_default_cast | psyco_default_binary_cast | Typecast string

record column =
  col_name :: string
  type_code :: nat
  display_size :: "int option"
  internal_size :: int
  precision :: "int option"
  scale :: "int option"

subsection \<open>The connection and the cursor\<close>

text \<open>
  Modelled from the spec: the declarations of connection.h and cursor.h are not under
  src/. The specification's data model gives the connection a status in
  \<open>{READY, BEGIN, CLOSED}\<close>, an isolation level (0 = autocommit, else READ COMMITTED or
  SERIALIZABLE), an optional critical message, the transaction mark and an asynchronous
  status; the other fields are the ones pqpath.c reads and writes. The connection
  always holds its libpq handle, so the test \<open>conn->pgconn != NULL\<close> of \<open>pq_raise\<close> is
  true and that function is never given a \<open>NULL\<close> connection.
\<close>

datatype conn_status = CONN_STATUS_READY | CONN_STATUS_BEGIN | CONN_STATUS_CLOSED

datatype async_state = ASYNC_DONE | ASYNC_READ | ASYNC_WRITE

record connectionObject =
  pgconn :: PGconn
  critical :: "string option"
  closed :: int
  status :: conn_status
  isolation_level :: int
  mark :: int
  protocol :: int
  async_status :: async_state
  async_cursor :: "nat option"
  conn_string_types :: "nat \<Rightarrow> typecast option"

record cursorObject =
  curs_addr :: nat
  pgres :: "PGresult option"
  rowcount :: int
  lastoid :: nat
  pgstatus :: "string option"
  notuples :: int
  columns :: nat
  description :: "column list option"
  casts :: "typecast list option"
  curs_string_types :: "(nat \<Rightarrow> typecast option) option"
  copyfile :: pyfile
  copysize :: int

text \<open>
  The state the functions run in: one connection, one cursor bound to it (every
  \<open>curs->conn\<close> of the source is this connection), the error indicator, and what the
  rest of the module decides: the build flags, whether a wait callback is installed
  (\<open>psyco_green()\<close>), the exception that callback leaves when it fails, and the global
  typecaster dictionary.
\<close>

record world =
  conn :: connectionObject
  curs :: cursorObject
  pyerr :: "py_error option"
  PSYCOPG_EXTENSIONS :: bool
  HAVE_PQPROTOCOL3 :: bool
  PSYCOPG_DISPLAY_SIZE :: bool
  psyco_green :: bool
  green_error :: "py_error option"
  psyco_types :: "nat \<Rightarrow> typecast option"

definition on_pgconn :: "(PGconn \<Rightarrow> PGconn) \<Rightarrow> world \<Rightarrow> world" where
  "on_pgconn f w = w\<lparr>conn := (conn w)\<lparr>pgconn := f (pgconn (conn w))\<rparr>\<rparr>"

definition on_copyfile :: "(pyfile \<Rightarrow> pyfile) \<Rightarrow> world \<Rightarrow> world" where
  "on_copyfile f w = w\<lparr>curs := (curs w)\<lparr>copyfile := f (copyfile (curs w))\<rparr>\<rparr>"

definition set_pgres :: "PGresult option \<Rightarrow> world \<Rightarrow> world" where
  \<comment> \<open>an assignment to \<open>curs->pgres\<close>; \<open>IFCLEARPGRES\<close> and \<open>CLEARPGRES\<close> assign \<open>NULL\<close>\<close>
  "set_pgres r w = w\<lparr>curs := (curs w)\<lparr>pgres := r\<rparr>\<rparr>"

definition PQstatus :: "world \<Rightarrow> ConnStatusType" where
  "PQstatus w = connStatus (pgconn (conn w))"

definition PQerrorMessage :: "world \<Rightarrow> string option" where
  "PQerrorMessage w = errorMessage (pgconn (conn w))"

definition PyErr_SetString :: "exception \<Rightarrow> string option \<Rightarrow> world \<Rightarrow> world" where
  "PyErr_SetString e m w =
     w\<lparr>pyerr := Some \<lparr>exc_type = e, exc_msg = m, exc_pgerror = None, exc_pgcode = None\<rparr>\<rparr>"

definition PyErr_Occurred :: "world \<Rightarrow> bool" where
  "PyErr_Occurred w = (pyerr w \<noteq> None)"

text \<open>
  Modelled from the spec: \<open>psyco_set_error\<close> (psycopgmodule.c) is not under src/. The
  specification has every failure yield one error object that carries the stripped
  message, the raw message and, when available, the diagnostic code.
\<close>

definition psyco_set_error ::
  "exception \<Rightarrow> string option \<Rightarrow> string option \<Rightarrow> string option \<Rightarrow> world \<Rightarrow> world" where
  "psyco_set_error e m pgerr code w =
     w\<lparr>pyerr := Some \<lparr>exc_type = e, exc_msg = m, exc_pgerror = pgerr, exc_pgcode = code\<rparr>\<rparr>"

text \<open>
  Modelled from the spec: \<open>conn_close\<close> (connection_int.c) is not under src/. It tears
  the session down; the model records that in \<open>closed\<close>, which a connection that is
  already marked keeps.
\<close>

definition conn_close :: "world \<Rightarrow> world" where
  "conn_close w = w\<lparr>conn := (conn w)\<lparr>closed := (if closed (conn w) = 0 then 1 else closed (conn w))\<rparr>\<rparr>"

text \<open>
  Modelled from the spec: \<open>conn_notice_process\<close> and \<open>conn_notifies_process\<close>
  (connection_int.c) are not under src/. They drain the notice and notification
  queues, which this model does not carry, and leave the rest of the state alone; the
  critical message is not theirs to change.
\<close>

definition conn_notice_process :: "world \<Rightarrow> world" where
  "conn_notice_process w = w"

definition conn_notifies_process :: "world \<Rightarrow> world" where
  "conn_notifies_process w = w"

subsection \<open>pq_raise\<close>

definition pq_raise :: "bool \<Rightarrow> PGresult option \<Rightarrow> world \<Rightarrow> world" where
  \<comment> \<open>the first argument says whether \<open>curs\<close> is given (not \<open>NULL\<close>)\<close>
  "pq_raise with_curs res0 w =
     (let w1 = (if PQstatus w = CONNECTION_BAD
                then w\<lparr>conn := (conn w)\<lparr>closed := 2\<rparr>\<rparr> else w);
          res = (if res0 = None \<and> with_curs then pgres (curs w1) else res0);
          err0 = (case res of None \<Rightarrow> None | Some r \<Rightarrow> resultErrorMessage r);
          code = (case res of
                    None \<Rightarrow> None
                  | Some r \<Rightarrow>
                      if HAVE_PQPROTOCOL3 w1 \<and> err0 \<noteq> None \<and> protocol (conn w1) = 3
                      then resultSqlstate r else None);
          err = (if err0 = None then PQerrorMessage w1 else err0)
      in case err of
           None \<Rightarrow> PyErr_SetString Error (Some ''psycopg went psycotic without error set'') w1
         | Some e \<Rightarrow>
             let exc =
               (case code of
                  Some c \<Rightarrow> exception_from_sqlstate (PSYCOPG_EXTENSIONS w1) c
                | None \<Rightarrow>
                    if strncmp_eq e ''ERROR:  Cannot insert a duplicate key'' 37
                       \<or> strncmp_eq e ''ERROR:  ExecAppend: Fail to add null'' 36
                       \<or> strstr e ''referential integrity violation''
                    then IntegrityError
                    else if strstr e ''could not serialize'' \<or> strstr e ''deadlock detected''
                    then (if PSYCOPG_EXTENSIONS w1 then TransactionRollbackError
                          else OperationalError)
                    else ProgrammingError)
             in psyco_set_error exc (strip_severity err) err code w1)"

subsection \<open>The critical flag\<close>

definition pq_set_critical :: "string option \<Rightarrow> world \<Rightarrow> world" where
  "pq_set_critical msg0 w =
     (let msg = (if msg0 = None then PQerrorMessage w else msg0)
      in w\<lparr>conn := (conn w)\<lparr>critical :=
             (case msg of
                None \<Rightarrow> None
              | Some m \<Rightarrow> if m \<noteq> [] then Some m else None)\<rparr>\<rparr>)"

definition pq_clear_critical :: "world \<Rightarrow> world" where
  "pq_clear_critical w =
     (if critical (conn w) \<noteq> None then w\<lparr>conn := (conn w)\<lparr>critical := None\<rparr>\<rparr> else w)"

text \<open>
  \<open>&(conn->critical[6])\<close> is the stored message from its seventh byte on. For a message
  shorter than six bytes the address lies outside the string; the message handed to
  \<open>PyErr_SetString\<close> is then no defined string, which is \<open>None\<close> here.
\<close>

definition critical_tail :: "string \<Rightarrow> string option" where
  "critical_tail c = (if 6 \<le> length c then Some (drop 6 c) else None)"

definition pq_resolve_critical :: "int \<Rightarrow> world \<Rightarrow> world" where
  "pq_resolve_critical close w =
     (case critical (conn w) of
        None \<Rightarrow> w
      | Some c \<Rightarrow>
          let w1 = PyErr_SetString OperationalError (critical_tail c) w;
              w2 = (if close = 1 then conn_close w1 else w1)
          in pq_clear_critical w2)"

subsection \<open>The notice handler\<close>

text \<open>
  Modelled from the spec: the notice handler of the connection (connection_int.c) is
  not under src/. The specification has the critical message of a connection set when
  the backend reports a condition that poisons it, and has the copy errors of protocol
  2 surface as backend notices; pqpath.c says of the handler that it sets a critical
  (the comments of \<open>pq_clear_critical\<close>, \<open>_pq_copy_in\<close> and \<open>pq_fetch\<close>). Of a call of the
  handler the model keeps the messages it takes for such a condition: each of them is
  handed to \<open>pq_set_critical\<close>. Which notices those are is the handler's decision and is
  left open: the messages are part of what the backend is given to do. The queue of
  ordinary notices, which \<open>conn_notice_process\<close> drains, is not modelled.
\<close>

definition notice_handler :: "string list \<Rightarrow> world \<Rightarrow> world" where
  "notice_handler msgs w = fold (\<lambda>m. pq_set_critical (Some m)) msgs w"

definition PQexec :: "string option \<Rightarrow> world \<Rightarrow> PGresult option \<times> world" where
  "PQexec query w =
     (next_answer None (exec_answers (pgconn (conn w))),
      notice_handler (next_answer [] (exec_notices (pgconn (conn w))))
        (on_pgconn (\<lambda>pg. pg\<lparr>exec_answers := tl (exec_answers pg),
                             exec_notices := tl (exec_notices pg),
                             sent := sent pg @ [Exec query]\<rparr>) w))"

text \<open>
  Modelled from the spec: \<open>psyco_exec_green\<close> (green.c) is not under src/. The
  cooperative wait hook runs the query on the same session and hands back its result;
  when it has none it returns \<open>NULL\<close> with its own exception set, if it raised one.
\<close>

definition psyco_exec_green :: "string option \<Rightarrow> world \<Rightarrow> PGresult option \<times> world" where
  "psyco_exec_green query w =
     (case PQexec query w of
        (None, w1) \<Rightarrow>
          (None, case green_error w1 of None \<Rightarrow> w1 | Some e \<Rightarrow> w1\<lparr>pyerr := Some e\<rparr>)
      | (Some r, w1) \<Rightarrow> (Some r, w1))"

subsection \<open>Commands and transactions\<close>

text \<open>
  \<open>pq_execute_command_locked\<close> returns its value together with the two out parameters
  \<open>*pgres\<close> and \<open>*error\<close>.
\<close>

definition pq_execute_command_locked ::
  "string option \<Rightarrow> world \<Rightarrow> int \<times> PGresult option \<times> string option \<times> world" where
  "pq_execute_command_locked query w =
     (case (if \<not> psyco_green w then PQexec query w else psyco_exec_green query w) of
        (None, w1) \<Rightarrow> (-1, None, PQerrorMessage w1, w1)
      | (Some r, w1) \<Rightarrow>
          if resultStatus r \<noteq> PGRES_COMMAND_OK then (-1, Some r, None, w1)
          else (0, None, None, w1))"

definition pq_complete_error :: "PGresult option \<Rightarrow> string option \<Rightarrow> world \<Rightarrow> world" where
  "pq_complete_error res error w =
     (if res \<noteq> None then pq_raise False res w
      else if error \<noteq> None then PyErr_SetString OperationalError error w
      else PyErr_SetString OperationalError (Some ''unknown error'') w)"

text \<open>
  The array \<open>query\<close> of \<open>pq_begin_locked\<close> has the entries 0 (\<open>NULL\<close>), 1 and 2. An
  isolation level outside 0..2 indexes outside the array, which C leaves undefined; the
  table gives no string there.
\<close>

definition begin_query :: "int \<Rightarrow> string option" where
  "begin_query level =
     (if level = 1 then Some ''BEGIN; SET TRANSACTION ISOLATION LEVEL READ COMMITTED''
      else if level = 2 then Some ''BEGIN; SET TRANSACTION ISOLATION LEVEL SERIALIZABLE''
      else None)"

definition pq_begin_locked :: "world \<Rightarrow> int \<times> PGresult option \<times> string option \<times> world" where
  "pq_begin_locked w =
     (if isolation_level (conn w) = 0 \<or> status (conn w) \<noteq> CONN_STATUS_READY
      then (0, None, None, w)
      else
        (case pq_execute_command_locked (begin_query (isolation_level (conn w))) w of
           (result, res, error, w1) \<Rightarrow>
             (result, res, error,
              if result = 0 then w1\<lparr>conn := (conn w1)\<lparr>status := CONN_STATUS_BEGIN\<rparr>\<rparr>
              else w1)))"

definition pq_commit :: "world \<Rightarrow> int \<times> world" where
  "pq_commit w =
     (if isolation_level (conn w) = 0 \<or> status (conn w) \<noteq> CONN_STATUS_BEGIN
      then (0, w)
      else
        (let w1 = w\<lparr>conn := (conn w)\<lparr>mark := mark (conn w) + 1\<rparr>\<rparr>
         in case pq_execute_command_locked (Some ''COMMIT'') w1 of
              (retvalue, res, error, w2) \<Rightarrow>
                (let w3 = conn_notice_process w2;
                     w4 = (if retvalue < 0 then pq_complete_error res error w3 else w3)
                 in (retvalue, w4\<lparr>conn := (conn w4)\<lparr>status := CONN_STATUS_READY\<rparr>\<rparr>))))"

subsection \<open>Draining the pending results\<close>

definition PQgetResult :: "world \<Rightarrow> PGresult option \<times> world" where
  "PQgetResult w =
     (case result_queue (pgconn (conn w)) of
        [] \<Rightarrow> (None, w)
      | r # rs \<Rightarrow> (Some r, on_pgconn (\<lambda>pg. pg\<lparr>result_queue := rs\<rparr>) w))"

lemma conn_PyErr_SetString [simp]: "conn (PyErr_SetString e m w) = conn w"
  by (simp add: PyErr_SetString_def)

lemma conn_psyco_set_error [simp]: "conn (psyco_set_error e m p c w) = conn w"
  by (simp add: psyco_set_error_def)

lemma pgconn_pq_raise [simp]: "pgconn (conn (pq_raise b r w)) = pgconn (conn w)"
  unfolding pq_raise_def Let_def
  by (split option.split) (simp add: PQstatus_def)

text \<open>
  The loop that ends the four copy functions:
  \<^verbatim>\<open>while ((curs->pgres = PQgetResult(curs->conn->pgconn)) != NULL) {
    if (PQresultStatus(curs->pgres) == PGRES_FATAL_ERROR)
        pq_raise(curs->conn, curs, NULL);
    IFCLEARPGRES(curs->pgres);
}\<close>
\<close>

function get_results_loop :: "world \<Rightarrow> world" where
  "get_results_loop w =
     (case PQgetResult w of
        (None, w1) \<Rightarrow> set_pgres None w1
      | (Some r, w1) \<Rightarrow>
          (let w2 = set_pgres (Some r) w1;
               w3 = (if resultStatus r = PGRES_FATAL_ERROR then pq_raise True None w2 else w2)
           in get_results_loop (set_pgres None w3)))"
  by pat_completeness auto
termination
  by (relation "measure (\<lambda>w. length (result_queue (pgconn (conn w))))")
     (auto simp: PQgetResult_def set_pgres_def on_pgconn_def split: list.splits)

declare get_results_loop.simps [simp del]

subsection \<open>COPY FROM, protocol 3\<close>

definition INT_MAX :: int where
  "INT_MAX = 2147483647"

definition callback_error :: py_error where
  "callback_error = \<lparr>exc_type = CallbackError, exc_msg = None, exc_pgerror = None, exc_pgcode = None\<rparr>"

definition attribute_error :: py_error where
  "attribute_error = \<lparr>exc_type = AttributeError, exc_msg = None, exc_pgerror = None, exc_pgcode = None\<rparr>"

definition file_read :: "world \<Rightarrow> py_object \<times> world" where
  \<comment> \<open>\<open>PyObject_CallFunctionObjArgs(func, size, NULL)\<close> on the \<open>read\<close> of the file\<close>
  "file_read w =
     (let ob = next_answer (PyString []) (read_answers (copyfile (curs w)));
          w1 = on_copyfile (\<lambda>f. f\<lparr>read_answers := tl (read_answers f)\<rparr>) w
      in (ob, if ob = PyNULL then w1\<lparr>pyerr := Some callback_error\<rparr> else w1))"

definition PQputCopyData :: "string \<Rightarrow> world \<Rightarrow> int \<times> world" where
  "PQputCopyData buf w =
     (next_answer 1 (putCopyData_answers (pgconn (conn w))),
      on_pgconn (\<lambda>pg. pg\<lparr>putCopyData_answers := tl (putCopyData_answers pg),
                           sent := sent pg @ [PutCopyData buf]\<rparr>) w)"

definition PQputCopyEnd :: "string option \<Rightarrow> world \<Rightarrow> int \<times> world" where
  "PQputCopyEnd errormsg w =
     (next_answer 1 (putCopyEnd_answers (pgconn (conn w))),
      on_pgconn (\<lambda>pg. pg\<lparr>putCopyEnd_answers := tl (putCopyEnd_answers pg),
                           sent := sent pg @ [PutCopyEnd errormsg]\<rparr>) w)"

text \<open>
  The \<open>while (1)\<close> of \<open>_pq_copy_in_v3\<close>: the variable \<open>error\<close> when the loop is left,
  and the state. An object that is not a string sets \<open>error\<close> to 1, which leaves the
  loop whatever \<open>length\<close> holds; for a string \<open>length\<close> is its size.
\<close>

function copy_in_v3_loop :: "world \<Rightarrow> int \<times> world" where
  "copy_in_v3_loop w =
     (case file_read w of
        (PyString s, w1) \<Rightarrow>
          if int (length s) = 0 \<or> int (length s) > INT_MAX then (0, w1)
          else
            (case PQputCopyData s w1 of
               (res, w2) \<Rightarrow>
                 if res = 0 then copy_in_v3_loop w2
                 else if res = -1 then (2, w2)
                 else copy_in_v3_loop w2)
      | (_, w1) \<Rightarrow> (1, w1))"
  by pat_completeness auto
termination
  by (relation "measure (\<lambda>w. length (read_answers (copyfile (curs w))))")
     (auto simp: file_read_def PQputCopyData_def on_pgconn_def on_copyfile_def
                 next_answer_def Let_def
           split: list.splits if_splits)

declare copy_in_v3_loop.simps [simp del]

text \<open>
  \<open>PyInt_FromSsize_t(curs->copysize)\<close> fails only when memory is exhausted, which the
  model leaves out. The result of the function is \<open>error == 0 ? 1 : -1\<close>.
\<close>

definition pq_copy_in_v3 :: "world \<Rightarrow> int \<times> world" where
  "pq_copy_in_v3 w =
     (if \<not> has_read (copyfile (curs w)) then (-1, w\<lparr>pyerr := Some attribute_error\<rparr>)
      else
        (case copy_in_v3_loop w of
           (error, w1) \<Rightarrow>
             (case PQputCopyEnd
                     (if error = 0 then None
                      else if error = 2 then Some ''error in PQputCopyData() call''
                      else Some ''error in .read() call'') w1 of
                (res, w2) \<Rightarrow>
                  (let w3 = set_pgres None w2;
                       w4 = (if res = -1
                             then (let w5 = pq_raise True None w3
                                   in w5\<lparr>conn := (conn w5)\<lparr>closed := 2\<rparr>\<rparr>)
                             else get_results_loop w3)
                   in (if error = 0 then 1 else -1, w4)))))"

subsection \<open>COPY FROM, protocol 2\<close>

definition file_readline :: "world \<Rightarrow> py_object \<times> world" where
  "file_readline w =
     (let ob = next_answer (PyString []) (readline_answers (copyfile (curs w)));
          w1 = on_copyfile (\<lambda>f. f\<lparr>readline_answers := tl (readline_answers f)\<rparr>) w
      in (ob, if ob = PyNULL then w1\<lparr>pyerr := Some callback_error\<rparr> else w1))"

definition PQputline :: "string \<Rightarrow> world \<Rightarrow> int \<times> world" where
  "PQputline line w =
     (next_answer 0 (putline_answers (pgconn (conn w))),
      on_pgconn (\<lambda>pg. pg\<lparr>putline_answers := tl (putline_answers pg),
                           sent := sent pg @ [Putline line]\<rparr>) w)"

definition PQendcopy :: "world \<Rightarrow> int \<times> world" where
  "PQendcopy w =
     (next_answer 0 (endcopy_answers (pgconn (conn w))),
      notice_handler (next_answer [] (endcopy_notices (pgconn (conn w))))
        (on_pgconn (\<lambda>pg. pg\<lparr>endcopy_answers := tl (endcopy_answers pg),
                             endcopy_notices := tl (endcopy_notices pg),
                             sent := sent pg @ [Endcopy]\<rparr>) w))"

text \<open>
  The \<open>while (1)\<close> of \<open>_pq_copy_in\<close>: \<open>True\<close> when it is left by \<open>break\<close>, \<open>False\<close> when
  it is left by \<open>goto exit\<close>. The source applies \<open>PyString_GET_SIZE\<close> unchecked; the
  answers of \<open>readline\<close> are strings, \<open>None\<close> or a raised exception.
\<close>

function copy_in_loop :: "world \<Rightarrow> bool \<times> world" where
  "copy_in_loop w =
     (case file_readline w of
        (PyNULL, w1) \<Rightarrow> (False, w1)
      | (PyNone, w1) \<Rightarrow> (True, w1)
      | (PyString s, w1) \<Rightarrow>
          if length s = 0 then (True, w1)
          else
            (case PQputline s w1 of
               (rv, w2) \<Rightarrow> if 0 \<noteq> rv then (False, w2) else copy_in_loop w2))"
  by pat_completeness auto
termination
  by (relation "measure (\<lambda>w. length (readline_answers (copyfile (curs w))))")
     (auto simp: file_readline_def PQputline_def on_pgconn_def on_copyfile_def
                 next_answer_def Let_def
           split: list.splits if_splits)

declare copy_in_loop.simps [simp del]

definition pq_copy_in :: "world \<Rightarrow> int \<times> world" where
  "pq_copy_in w =
     (if \<not> has_readline (copyfile (curs w)) then (-1, w\<lparr>pyerr := Some attribute_error\<rparr>)
      else
        (case copy_in_loop w of
           (False, w1) \<Rightarrow> (-1, w1)
         | (True, w1) \<Rightarrow>
             (let w2 = snd (PQputline [CHR 0x5C, CHR ''.'', CHR 0x0A] w1);
                  w3 = snd (PQendcopy w2)
              in (1, get_results_loop (set_pgres None w3)))))"

subsection \<open>COPY TO, protocol 3\<close>

definition PQgetCopyData :: "world \<Rightarrow> (int \<times> string option) \<times> world" where
  \<comment> \<open>the value returned and the buffer it stores in \<open>*buffer\<close>\<close>
  "PQgetCopyData w =
     (next_answer (-1, None) (getCopyData_answers (pgconn (conn w))),
      on_pgconn (\<lambda>pg. pg\<lparr>getCopyData_answers := tl (getCopyData_answers pg)\<rparr>) w)"

definition file_write :: "string \<Rightarrow> world \<Rightarrow> bool \<times> world" where
  \<comment> \<open>\<open>PyObject_CallFunction(func, "s#", buffer, len)\<close> on the \<open>write\<close> of the file:
      \<open>False\<close> when it returns \<open>NULL\<close>\<close>
  "file_write s w =
     (let ok = next_answer True (write_answers (copyfile (curs w)));
          w1 = on_copyfile (\<lambda>f. f\<lparr>write_answers := tl (write_answers f),
                                   written := (if ok then written f @ [s] else written f)\<rparr>) w
      in (ok, if ok then w1 else w1\<lparr>pyerr := Some callback_error\<rparr>))"

text \<open>
  The \<open>while (1)\<close> of \<open>_pq_copy_out_v3\<close>: the value of \<open>len\<close> at the \<open>break\<close>, or \<open>None\<close>
  when a write failed and the loop is left by \<open>goto exit\<close>. The string written is the
  first \<open>len\<close> bytes of the buffer.
\<close>

function copy_out_v3_loop :: "world \<Rightarrow> int option \<times> world" where
  "copy_out_v3_loop w =
     (case PQgetCopyData w of
        ((len, buffer), w1) \<Rightarrow>
          (case (if len > 0 then buffer else None) of
             Some b \<Rightarrow>
               (case file_write (take (nat len) b) w1 of
                  (False, w2) \<Rightarrow> (None, w2)
                | (True, w2) \<Rightarrow> copy_out_v3_loop w2)
           | None \<Rightarrow>
               if len \<le> 0 then (Some len, w1)
               else copy_out_v3_loop w1))"
  by pat_completeness auto
termination
  by (relation "measure (\<lambda>w. length (getCopyData_answers (pgconn (conn w))))")
     (auto simp: PQgetCopyData_def file_write_def on_pgconn_def on_copyfile_def
                 next_answer_def Let_def
           split: list.splits if_splits)

declare copy_out_v3_loop.simps [simp del]

definition pq_copy_out_v3 :: "world \<Rightarrow> int \<times> world" where
  "pq_copy_out_v3 w =
     (if \<not> has_write (copyfile (curs w)) then (-1, w\<lparr>pyerr := Some attribute_error\<rparr>)
      else
        (case copy_out_v3_loop w of
           (None, w1) \<Rightarrow> (-1, w1)
         | (Some len, w1) \<Rightarrow>
             if len = -2 then (-1, pq_raise True None w1)
             else (1, get_results_loop (set_pgres None w1))))"

subsection \<open>COPY TO, protocol 2\<close>

definition PQgetline :: "world \<Rightarrow> (int \<times> string) \<times> world" where
  \<comment> \<open>the value returned (0 a whole line, 1 a full buffer, \<open>EOF\<close>) and the string it
      leaves in the buffer\<close>
  "PQgetline w =
     (next_answer (-1, []) (getline_answers (pgconn (conn w))),
      on_pgconn (\<lambda>pg. pg\<lparr>getline_answers := tl (getline_answers pg)\<rparr>) w)"

text \<open>
  The \<open>while (1)\<close> of \<open>_pq_copy_out\<close>. The argument \<open>ll\<close> is the flag of the source;
  the result is \<open>True\<close> with the state when the loop is left by \<open>break\<close>, and \<open>False\<close>
  with the value of \<open>status\<close> when it is left by \<open>goto exit\<close>.
\<close>

function copy_out_loop :: "bool \<Rightarrow> world \<Rightarrow> bool \<times> int \<times> world" where
  "copy_out_loop ll w =
     (case PQgetline w of
        ((st, buffer), w1) \<Rightarrow>
          if st = 0 then
            (if \<not> ll \<and> cchar buffer 0 = CHR 0x5C \<and> cchar buffer 1 = CHR ''.''
             then (True, st, w1)
             else
               (case file_write (buffer @ [CHR 0x0A]) w1 of
                  (False, w2) \<Rightarrow> (False, st, w2)
                | (True, w2) \<Rightarrow> copy_out_loop False w2))
          else if st = 1 then
            (case file_write (take (4096 - 1) buffer) w1 of
               (False, w2) \<Rightarrow> (False, st, w2)
             | (True, w2) \<Rightarrow> copy_out_loop True w2)
          else (False, st, w1))"
  by pat_completeness auto
termination
  by (relation "measure (\<lambda>(ll, w). length (getline_answers (pgconn (conn w))))")
     (auto simp: PQgetline_def file_write_def on_pgconn_def on_copyfile_def
                 next_answer_def Let_def
           split: list.splits if_splits)

declare copy_out_loop.simps [simp del]

definition pq_copy_out :: "world \<Rightarrow> int \<times> world" where
  "pq_copy_out w =
     (if \<not> has_write (copyfile (curs w)) then (-1, w\<lparr>pyerr := Some attribute_error\<rparr>)
      else
        (case copy_out_loop False w of
           (False, st, w1) \<Rightarrow> (st, w1)
         | (True, st, w1) \<Rightarrow>
             (case PQendcopy w1 of
                (e, w2) \<Rightarrow>
                  (if e \<noteq> 0 then -1 else 1, get_results_loop (set_pgres None w2)))))"

subsection \<open>The description of a result with tuples\<close>

definition PQgetlength :: "PGresult \<Rightarrow> nat \<Rightarrow> nat \<Rightarrow> int" where
  \<comment> \<open>the length of the cell in row \<open>j\<close>, column \<open>i\<close>; libpq answers 0 outside the result\<close>
  "PQgetlength r j i =
     (if j < length (cell_lengths r) \<and> i < length (cell_lengths r ! j)
      then cell_lengths r ! j ! i else 0)"

definition NUMERICOID :: nat where
  \<comment> \<open>pgtypes.h, not under src/: the type id of \<open>numeric\<close> in the PostgreSQL catalog\<close>
  "NUMERICOID = 1700"

definition sizeof_int :: int where
  "sizeof_int = 4"

definition dsize :: "PGresult \<Rightarrow> int \<Rightarrow> nat \<Rightarrow> int" where
  \<comment> \<open>\<open>dsize[i]\<close> after the two loops over the rows below \<open>curs->rowcount\<close>\<close>
  "dsize r rows i =
     fold (\<lambda>j d. if PQgetlength r j i > d then PQgetlength r j i else d) [0..<nat rows] (-1)"

definition lookup_cast :: "world \<Rightarrow> bool \<Rightarrow> nat \<Rightarrow> typecast" where
  "lookup_cast w pgbintuples ty =
     (let c1 = (case curs_string_types (curs w) of None \<Rightarrow> None | Some d \<Rightarrow> d ty);
          c2 = (if c1 = None then conn_string_types (conn w) ty else c1);
          c3 = (if c2 = None then psyco_types w ty else c2);
          c4 = (case c3 of None \<Rightarrow> psyco_default_cast | Some c \<Rightarrow> c)
      in if pgbintuples \<and> c4 = psyco_default_binary_cast then psyco_default_cast else c4)"

definition describe_column :: "world \<Rightarrow> PGresult \<Rightarrow> nat \<Rightarrow> column" where
  \<comment> \<open>the tuple \<open>dtitem\<close> built for column \<open>i\<close>; its seventh item is always \<open>None\<close>\<close>
  "describe_column w r i =
     (let f = pgfields r ! i;
          m = (if fmod f > 0 then fmod f - sizeof_int else fmod f);
          d = dsize r (rowcount (curs w)) i
      in \<lparr>col_name = fname f,
          type_code = ftype f,
          display_size = (if PSYCOPG_DISPLAY_SIZE w \<and> d \<ge> 0 then Some d else None),
          internal_size =
            (if fsize f = -1
             then (if ftype f = NUMERICOID then (drop_bit 16 m) AND 0xFFFF else m)
             else fsize f),
          precision = (if ftype f = NUMERICOID then Some ((drop_bit 16 m) AND 0xFFFF) else None),
          scale = (if ftype f = NUMERICOID then Some (m AND 0xFFFF) else None)\<rparr>)"

text \<open>
  \<open>_pq_fetch_tuples\<close>, for the result \<open>r\<close> the cursor holds. The allocation of \<open>dsize\<close>
  is taken to succeed.
\<close>

definition pq_fetch_tuples :: "PGresult \<Rightarrow> world \<Rightarrow> world" where
  "pq_fetch_tuples r w =
     (let n = length (pgfields r)
      in w\<lparr>curs := (curs w)
            \<lparr>notuples := 0,
             columns := n,
             description := Some (map (describe_column w r) [0..<n]),
             casts := Some (map (\<lambda>i. lookup_cast w (binaryTuples r) (ftype (pgfields r ! i)))
                             [0..<n])\<rparr>\<rparr>)"

subsection \<open>atoi\<close>

text \<open>
  The C library's \<open>atoi\<close>: white space is skipped, an optional sign is read, and the
  digits that follow are accumulated until the first byte that is not a digit. The
  result is an \<open>int\<close>. For a value that does not fit, the C standard leaves the result
  open; the function below is the \<open>atoi\<close> of the GNU C library on a platform whose
  \<open>long\<close> has 64 bits, \<^verbatim>\<open>(int) strtol(nptr, NULL, 10)\<close>: \<open>strtol\<close> saturates at \<open>LONG_MAX\<close> and
  \<open>LONG_MIN\<close>, and the conversion to \<open>int\<close> keeps the low 32 bits. So \<open>"2147483648"\<close>
  gives \<open>-2147483648\<close> and \<open>"4294967299"\<close> gives 3.
\<close>

definition isspace :: "char \<Rightarrow> bool" where
  "isspace c = (c = CHR '' '' \<or> c = CHR 0x09 \<or> c = CHR 0x0A \<or> c = CHR 0x0B
                \<or> c = CHR 0x0C \<or> c = CHR 0x0D)"

definition isdigit :: "char \<Rightarrow> bool" where
  "isdigit c = (48 \<le> (of_char c :: nat) \<and> (of_char c :: nat) \<le> 57)"

definition digit_value :: "char \<Rightarrow> int" where
  "digit_value c = int (of_char c) - 48"

fun atoi_digits :: "int \<Rightarrow> string \<Rightarrow> int" where
  "atoi_digits acc [] = acc"
| "atoi_digits acc (c # cs) =
     (if isdigit c then atoi_digits (10 * acc + digit_value c) cs else acc)"

definition LONG_MAX :: int where
  "LONG_MAX = 9223372036854775807"

definition LONG_MIN :: int where
  "LONG_MIN = - 9223372036854775808"

definition strtol :: "string \<Rightarrow> int" where
  \<comment> \<open>\<open>strtol(s, NULL, 10)\<close>: the value read, kept within the range of \<open>long\<close>\<close>
  "strtol s =
     (let v = (case dropWhile isspace s of
                 [] \<Rightarrow> 0
               | c # cs \<Rightarrow>
                   if c = CHR ''-'' then - atoi_digits 0 cs
                   else if c = CHR ''+'' then atoi_digits 0 cs
                   else atoi_digits 0 (c # cs))
      in if v > LONG_MAX then LONG_MAX else if v < LONG_MIN then LONG_MIN else v)"

definition int_of_long :: "int \<Rightarrow> int" where
  \<comment> \<open>the conversion \<open>(int) v\<close> of a \<open>long\<close>: the value modulo \<open>2^32\<close> in the range of \<open>int\<close>\<close>
  "int_of_long v = (v + 2147483648) mod 4294967296 - 2147483648"

definition atoi :: "string \<Rightarrow> int" where
  "atoi s = int_of_long (strtol s)"

text \<open>
  The integer a string of decimal digits denotes, most significant digit first: the
  positional value, for comparison with what \<open>atoi\<close> computes.
\<close>

fun decimal_value :: "string \<Rightarrow> int" where
  "decimal_value [] = 0"
| "decimal_value (c # cs) = digit_value c * 10 ^ length cs + decimal_value cs"

subsection \<open>pq_fetch\<close>

text \<open>
  Modelled from the spec: \<open>curs_reset\<close> (cursor_int.c) is not under src/. It removes
  what the cursor holds of the previous query, the row count, the description and the
  typecasters; the pending result \<open>curs->pgres\<close> stays, \<open>pq_fetch\<close> reads it right after
  the call.
\<close>

definition curs_reset :: "world \<Rightarrow> world" where
  "curs_reset w =
     w\<lparr>curs := (curs w)\<lparr>notuples := 1, rowcount := -1, description := None, casts := None\<rparr>\<rparr>"

definition set_rowcount :: "int \<Rightarrow> world \<Rightarrow> world" where
  "set_rowcount n w = w\<lparr>curs := (curs w)\<lparr>rowcount := n\<rparr>\<rparr>"

definition pq_fetch_result :: "PGresult \<Rightarrow> world \<Rightarrow> int \<times> world" where
  \<comment> \<open>the \<open>switch (pgstatus)\<close> of \<open>pq_fetch\<close>: the value of \<open>ex\<close> after it, and the state\<close>
  "pq_fetch_result r w =
     (case resultStatus r of
        PGRES_COMMAND_OK \<Rightarrow>
          (let rc = (case cmdTuples r of
                       None \<Rightarrow> -1
                     | Some t \<Rightarrow> if cchar t 0 = CHR 0x00 then -1 else atoi t);
               w1 = set_rowcount rc w;
               w2 = w1\<lparr>curs := (curs w1)\<lparr>lastoid := oidValue r\<rparr>\<rparr>
           in (1, set_pgres None w2))
      | PGRES_COPY_OUT \<Rightarrow>
          (case (if HAVE_PQPROTOCOL3 w \<and> protocol (conn w) = 3
                 then pq_copy_out_v3 w else pq_copy_out w) of
             (ex, w1) \<Rightarrow>
               (let w2 = set_rowcount (-1) w1
                in (if PyErr_Occurred w2 then -1 else ex, set_pgres None w2)))
      | PGRES_COPY_IN \<Rightarrow>
          (case (if HAVE_PQPROTOCOL3 w \<and> protocol (conn w) = 3
                 then pq_copy_in_v3 w else pq_copy_in w) of
             (ex, w1) \<Rightarrow>
               (let w2 = set_rowcount (-1) w1
                in (if PyErr_Occurred w2 then -1 else ex, set_pgres None w2)))
      | PGRES_TUPLES_OK \<Rightarrow>
          (0, pq_fetch_tuples r (set_rowcount (ntuples r) w))
      | _ \<Rightarrow> (-1, set_pgres None (pq_raise True None w)))"

definition pq_fetch :: "world \<Rightarrow> int \<times> world" where
  "pq_fetch w0 =
     (let w = curs_reset w0
      in case pgres (curs w) of
           None \<Rightarrow> (0, w)
         | Some r \<Rightarrow>
             (case pq_fetch_result r (w\<lparr>curs := (curs w)\<lparr>pgstatus := Some (cmdStatus r)\<rparr>\<rparr>) of
                (ex, w1) \<Rightarrow>
                  (let w2 = conn_notifies_process (conn_notice_process w1)
                   in if critical (conn w2) \<noteq> None
                      then (-1, pq_resolve_critical (if ex = -1 then 1 else 0) w2)
                      else (ex, w2))))"

subsection \<open>pq_execute\<close>





section \<open>Example states and auxiliary notions\<close>

text \<open>
  A backend that has nothing queued, a file object with nothing to read, and a
  connection at isolation level 1 that is ready, on protocol 3, in a build with
  \<open>PSYCOPG_EXTENSIONS\<close> and \<open>HAVE_PQPROTOCOL3\<close>. The examples below vary these.
\<close>

definition command_ok :: PGresult where
  "command_ok =
     \<lparr>resultStatus = PGRES_COMMAND_OK, resultErrorMessage = Some [], resultSqlstate = None,
      cmdStatus = ''UPDATE 3'', cmdTuples = Some ''3'', oidValue = 0, binaryTuples = False,
      ntuples = 0, pgfields = [], cell_lengths = []\<rparr>"

definition fatal_error :: PGresult where
  "fatal_error =
     command_ok\<lparr>resultStatus := PGRES_FATAL_ERROR,
                resultErrorMessage := Some ''ERROR:  deadlock detected'',
                resultSqlstate := Some ''40P01'', cmdStatus := [], cmdTuples := Some []\<rparr>"

definition quiet_pgconn :: PGconn where
  "quiet_pgconn =
     \<lparr>connStatus = CONNECTION_OK, errorMessage = Some [], exec_answers = [],
      exec_notices = [], result_queue = [], sendQuery_answers = [], flush_answers = [],
      putCopyData_answers = [], putCopyEnd_answers = [], getCopyData_answers = [],
      putline_answers = [], getline_answers = [], endcopy_answers = [],
      endcopy_notices = [], sent = []\<rparr>"

definition empty_file :: pyfile where
  "empty_file =
     \<lparr>has_read = True, has_readline = True, has_write = True, read_answers = [],
      readline_answers = [], write_answers = [], written = []\<rparr>"

definition ready_world :: world where
  "ready_world =
     \<lparr>conn = \<lparr>pgconn = quiet_pgconn, critical = None, closed = 0,
              status = CONN_STATUS_READY, isolation_level = 1, mark = 0, protocol = 3,
              async_status = ASYNC_DONE, async_cursor = None,
              conn_string_types = (\<lambda>_. None)\<rparr>,
      curs = \<lparr>curs_addr = 1, pgres = None, rowcount = -1, lastoid = 0, pgstatus = None,
              notuples = 1, columns = 0, description = None, casts = None,
              curs_string_types = None, copyfile = empty_file, copysize = 8192\<rparr>,
      pyerr = None, PSYCOPG_EXTENSIONS = True, HAVE_PQPROTOCOL3 = True,
      PSYCOPG_DISPLAY_SIZE = False, psyco_green = False, green_error = None,
      psyco_types = (\<lambda>_. None)\<rparr>"

definition with_exec_answers :: "PGresult option list \<Rightarrow> world \<Rightarrow> world" where
  "with_exec_answers as w = on_pgconn (\<lambda>pg. pg\<lparr>exec_answers := as\<rparr>) w"

definition with_results :: "PGresult list \<Rightarrow> world \<Rightarrow> world" where
  "with_results rs w = on_pgconn (\<lambda>pg. pg\<lparr>result_queue := rs\<rparr>) w"

definition with_frames :: "(int \<times> string option) list \<Rightarrow> world \<Rightarrow> world" where
  "with_frames fs w = on_pgconn (\<lambda>pg. pg\<lparr>getCopyData_answers := fs\<rparr>) w"

definition with_putCopyData :: "int list \<Rightarrow> world \<Rightarrow> world" where
  "with_putCopyData as w = on_pgconn (\<lambda>pg. pg\<lparr>putCopyData_answers := as\<rparr>) w"

definition with_putCopyEnd :: "int list \<Rightarrow> world \<Rightarrow> world" where
  "with_putCopyEnd as w = on_pgconn (\<lambda>pg. pg\<lparr>putCopyEnd_answers := as\<rparr>) w"

definition with_reads :: "py_object list \<Rightarrow> world \<Rightarrow> world" where
  "with_reads rs w = on_copyfile (\<lambda>f. f\<lparr>read_answers := rs\<rparr>) w"

definition with_writes :: "bool list \<Rightarrow> world \<Rightarrow> world" where
  "with_writes ws w = on_copyfile (\<lambda>f. f\<lparr>write_answers := ws\<rparr>) w"

definition with_connStatus :: "ConnStatusType \<Rightarrow> world \<Rightarrow> world" where
  "with_connStatus st w = on_pgconn (\<lambda>pg. pg\<lparr>connStatus := st\<rparr>) w"

definition with_status :: "conn_status \<Rightarrow> world \<Rightarrow> world" where
  "with_status st w = w\<lparr>conn := (conn w)\<lparr>status := st\<rparr>\<rparr>"

definition with_critical :: "string option \<Rightarrow> world \<Rightarrow> world" where
  "with_critical c w = w\<lparr>conn := (conn w)\<lparr>critical := c\<rparr>\<rparr>"

text \<open>
  A COPY FROM whose source yields \<open>"abc"\<close>, \<open>"def"\<close> and then the empty string, and a
  COPY TO that delivers three frames and then the end of the copy; in both one result
  is queued behind the copy.
\<close>

definition abc_def_source :: world where
  "abc_def_source =
     with_reads [PyString ''abc'', PyString ''def'', PyString []]
       (with_results [command_ok] ready_world)"

definition three_frames :: world where
  "three_frames =
     with_frames [(3, Some ''abc''), (3, Some ''def''), (3, Some ''ghi''), (-1, None)]
       (with_results [command_ok] ready_world)"

definition three_frames_then_error :: world where
  "three_frames_then_error =
     with_frames [(3, Some ''abc''), (3, Some ''def''), (3, Some ''ghi''), (-2, None)]
       ready_world"

text \<open>
  The critical message of a connection after the notice handler has handed the
  messages \<open>msgs\<close> to \<open>pq_set_critical\<close>: the one it had when there are none, and
  otherwise the last of them, or none when that one is empty.
\<close>

definition stored_critical :: "string list \<Rightarrow> string option \<Rightarrow> string option" where
  "stored_critical msgs c =
     (if msgs = [] then c else if last msgs \<noteq> [] then Some (last msgs) else None)"

text \<open>Whether the backend answers the next command with \<open>PGRES_COMMAND_OK\<close>.\<close>

definition command_succeeds :: "world \<Rightarrow> bool" where
  "command_succeeds w =
     (case next_answer None (exec_answers (pgconn (conn w))) of
        None \<Rightarrow> False
      | Some r \<Rightarrow> resultStatus r = PGRES_COMMAND_OK)"

text \<open>Whether the backend answers the next command with a result that is not that.\<close>

definition command_rejected :: "world \<Rightarrow> bool" where
  "command_rejected w =
     (case next_answer None (exec_answers (pgconn (conn w))) of
        None \<Rightarrow> False
      | Some r \<Rightarrow> resultStatus r \<noteq> PGRES_COMMAND_OK)"

text \<open>
  Whether the error indicator holds an exception of the module's database errors
  (\<open>Error\<close> and the classes below it), which is what \<open>pq_raise\<close> sets for the backend;
  the exceptions of a failing file object are not among them.
\<close>

definition database_error :: "py_error option \<Rightarrow> bool" where
  "database_error e =
     (case e of
        None \<Rightarrow> False
      | Some x \<Rightarrow> exc_type x \<notin> {AttributeError, CallbackError})"

text \<open>The state \<open>pq_begin_locked\<close> leaves.\<close>

definition begun :: "world \<Rightarrow> world" where
  "begun w = snd (snd (snd (pq_begin_locked w)))"












text \<open>
  One round of the loop of \<open>_pq_copy_in_v3\<close> (a read, then the chunk is sent) and one
  round of the loop of \<open>_pq_copy_out_v3\<close> (a frame is taken, then written).
\<close>

definition chunk_sent :: "string \<Rightarrow> world \<Rightarrow> world" where
  "chunk_sent s w = snd (PQputCopyData s (snd (file_read w)))"

definition frame_written :: "string \<Rightarrow> world \<Rightarrow> world" where
  "frame_written b w = snd (file_write b (snd (PQgetCopyData w)))"

lemmas example_defs =
  command_ok_def fatal_error_def quiet_pgconn_def empty_file_def ready_world_def
  with_exec_answers_def with_status_def with_critical_def
  on_pgconn_def on_copyfile_def next_answer_def notice_handler_def

section \<open>Error classification\<close>

text \<open>
  C1 (amended). In a build with \<open>PSYCOPG_EXTENSIONS\<close>, \<open>exception_from_sqlstate\<close> returns
  for the exact code 57014 \<open>QueryCanceledError\<close>, and otherwise, for a code whose first two
  characters are a class of the specification's table, the kind the table gives. For a
  class the table does not list the function looks at the first character only: every
  other code that starts with 5 is an \<open>OperationalError\<close>, every other code that starts
  with F, P or X is an \<open>InternalError\<close>, and only the remaining codes are the generic
  \<open>DatabaseError\<close>.
\<close>

theorem exception_from_sqlstate_classes:
  "exception_from_sqlstate True s =
     (if s = ''57014'' then QueryCanceledError
      else case spec_class_table (take 2 s) of
             Some k \<Rightarrow> k
           | None \<Rightarrow>
               if cchar s 0 = CHR ''5'' then OperationalError
               else if cchar s 0 \<in> {CHR ''F'', CHR ''P'', CHR ''X''} then InternalError
               else DatabaseError)"
proof (cases s)
  case Nil
  then show ?thesis
    by (simp add: exception_from_sqlstate_def cchar_def spec_class_table_def Let_def)
next
  case first: (Cons a t)
  show ?thesis
  proof (cases t)
    case Nil
    with first show ?thesis
      by (auto simp add: exception_from_sqlstate_def cchar_def spec_class_table_def Let_def)
  next
    case (Cons b u)
    with first show ?thesis
      by (auto simp add: exception_from_sqlstate_def cchar_def spec_class_table_def Let_def)
  qed
qed

text \<open>
  The claim as stated fails: class 50 is not in the table, and the code 50000 is
  classified as \<open>OperationalError\<close>, not as the generic \<open>DatabaseError\<close>; likewise F1000
  is an \<open>InternalError\<close>.
\<close>

theorem exception_from_sqlstate_unlisted_class:
  "spec_class_table ''50'' = None \<and>
   exception_from_sqlstate True ''50000'' = OperationalError \<and>
   spec_class_table ''F1'' = None \<and>
   exception_from_sqlstate True ''F1000'' = InternalError"
  by (simp add: exception_from_sqlstate_def cchar_def spec_class_table_def)

text \<open>Without \<open>PSYCOPG_EXTENSIONS\<close> class 40 and the code 57014 are operational errors.\<close>

lemma exception_from_sqlstate_no_extensions:
  "exception_from_sqlstate False ''40001'' = OperationalError \<and>
   exception_from_sqlstate False ''57014'' = OperationalError"
  by (simp add: exception_from_sqlstate_def cchar_def)

text \<open>
  C7 (amended). \<open>strip_severity\<close> removes the 8-byte prefix when the message is longer
  than 8 bytes and begins with \<open>"ERROR:  "\<close>, \<open>"FATAL:  "\<close> or \<open>"PANIC:  "\<close>, and returns
  the tail that is left; a message of at most 8 bytes, so also a message that is
  exactly one of the three prefixes, and a message that begins with none of them is
  returned unchanged; \<open>NULL\<close> is returned for \<open>NULL\<close>.
\<close>

theorem strip_severity_prefix:
  "strip_severity None = None \<and>
   (\<forall>p t. p \<in> {''ERROR:  '', ''FATAL:  '', ''PANIC:  ''} \<longrightarrow> t \<noteq> [] \<longrightarrow>
      strip_severity (Some (p @ t)) = Some t) \<and>
   (\<forall>m. length m \<le> 8 \<longrightarrow> strip_severity (Some m) = Some m) \<and>
   (\<forall>m. take 8 m \<notin> {''ERROR:  '', ''FATAL:  '', ''PANIC:  ''} \<longrightarrow>
      strip_severity (Some m) = Some m)"
  by (auto simp: strip_severity_def strncmp_eq_def)

theorem strip_severity_prefix_witness:
  "strip_severity (Some (''ERROR:  '' @ ''duplicate key'')) = Some ''duplicate key'' \<and>
   strip_severity (Some ''FATAL:  '') = Some ''FATAL:  '' \<and>
   strip_severity (Some ''NOTICE:  hello'') = Some ''NOTICE:  hello''"
proof -
  have a: "strip_severity (Some (''ERROR:  '' @ ''duplicate key'')) = Some ''duplicate key''"
    using strip_severity_prefix by blast
  have b: "strip_severity (Some ''FATAL:  '') = Some ''FATAL:  ''"
    using strip_severity_prefix by simp
  have c: "strip_severity (Some ''NOTICE:  hello'') = Some ''NOTICE:  hello''"
    using strip_severity_prefix by simp
  from a b c show ?thesis by blast
qed

text \<open>
  The claim as stated fails on a message that is exactly a prefix: it begins with
  \<open>"ERROR:  "\<close>, and the test \<open>strlen(msg) > 8\<close> returns it whole instead of the empty
  tail.
\<close>

theorem strip_severity_bare_prefix:
  "take 8 ''ERROR:  '' = ''ERROR:  '' \<and> drop 8 ''ERROR:  '' = [] \<and>
   strip_severity (Some ''ERROR:  '') = Some ''ERROR:  ''"
  by (simp add: strip_severity_def strncmp_eq_def)

section \<open>The critical flag\<close>

lemma critical_pq_clear_critical: "critical (conn (pq_clear_critical w)) = None"
  by (simp add: pq_clear_critical_def)

lemma critical_pq_resolve_critical: "critical (conn (pq_resolve_critical c w)) = None"
  by (simp add: pq_resolve_critical_def Let_def critical_pq_clear_critical split: option.split)

lemma curs_pq_resolve_critical: "curs (pq_resolve_critical c w) = curs w"
  by (simp add: pq_resolve_critical_def Let_def pq_clear_critical_def conn_close_def
      PyErr_SetString_def split: option.split)


text \<open>
  C9. After \<open>pq_resolve_critical\<close> the critical flag is clear, and a second call changes
  nothing: the state it returns, error indicator and \<open>closed\<close> included, is the state it
  was given. The same holds for any call on a connection whose flag is clear.
\<close>

theorem pq_resolve_critical_idempotent:
  "critical (conn (pq_resolve_critical c w)) = None \<and>
   pq_resolve_critical c' (pq_resolve_critical c w) = pq_resolve_critical c w \<and>
   (critical (conn w) = None \<longrightarrow> pq_resolve_critical c' w = w)"
proof -
  have noop: "pq_resolve_critical k v = v" if "critical (conn v) = None" for k v
    using that by (simp add: pq_resolve_critical_def)
  show ?thesis using critical_pq_resolve_critical noop by simp
qed

theorem pq_resolve_critical_idempotent_witness:
  "critical (conn (with_critical (Some ''ERROR: server closed the connection'') ready_world))
     \<noteq> None \<and>
   closed (conn (pq_resolve_critical 1
     (with_critical (Some ''ERROR: server closed the connection'') ready_world))) = 1 \<and>
   pq_resolve_critical 1 (pq_resolve_critical 1
     (with_critical (Some ''ERROR: server closed the connection'') ready_world)) =
   pq_resolve_critical 1
     (with_critical (Some ''ERROR: server closed the connection'') ready_world) \<and>
   pq_resolve_critical 1 ready_world = ready_world"
proof -
  have none: "critical (conn ready_world) = None"
    by (simp add: ready_world_def)
  have closes: "closed (conn (pq_resolve_critical 1
     (with_critical (Some ''ERROR: server closed the connection'') ready_world))) = 1"
    by (simp add: pq_resolve_critical_def Let_def conn_close_def pq_clear_critical_def
        PyErr_SetString_def with_critical_def ready_world_def)
  show ?thesis
    using pq_resolve_critical_idempotent
            [of 1 "with_critical (Some ''ERROR: server closed the connection'') ready_world" 1]
          pq_resolve_critical_idempotent [of 1 ready_world 1] none closes
    by (simp add: with_critical_def)
qed

text \<open>
  C10. When a critical message \<open>c\<close> of at least 6 bytes is stored and resolved, the
  \<open>OperationalError\<close> that is raised carries \<open>c\<close> without its first 6 bytes: the message
  is \<open>drop 6 c\<close>, which with the 6 bytes in front is \<open>c\<close> again and is never \<open>c\<close> itself.
  This holds for every message \<open>pq_set_critical\<close> stores, with and without closing.
\<close>

theorem pq_resolve_critical_skips_six:
  "(critical (conn w) = Some c \<and> 6 \<le> length c \<longrightarrow>
      pyerr (pq_resolve_critical cl w) =
        Some \<lparr>exc_type = OperationalError, exc_msg = Some (drop 6 c),
              exc_pgerror = None, exc_pgcode = None\<rparr> \<and>
      take 6 c @ drop 6 c = c \<and> length (drop 6 c) = length c - 6 \<and> drop 6 c \<noteq> c) \<and>
   (6 \<le> length m \<longrightarrow>
      pyerr (pq_resolve_critical cl (pq_set_critical (Some m) w)) =
        Some \<lparr>exc_type = OperationalError, exc_msg = Some (drop 6 m),
              exc_pgerror = None, exc_pgcode = None\<rparr>)"
proof -
  have raised: "pyerr (pq_resolve_critical k v) =
      Some \<lparr>exc_type = OperationalError, exc_msg = Some (drop 6 x),
            exc_pgerror = None, exc_pgcode = None\<rparr>"
    if "critical (conn v) = Some x" and "6 \<le> length x" for k v x
    using that
    by (simp add: pq_resolve_critical_def Let_def pq_clear_critical_def conn_close_def
        PyErr_SetString_def critical_tail_def)
  have shorter: "drop 6 x \<noteq> x" if "6 \<le> length x" for x :: string
  proof
    assume "drop 6 x = x"
    then have "length (drop 6 x) = length x" by simp
    with that show False by simp
  qed
  have stored: "critical (conn (pq_set_critical (Some x) v)) = Some x" if "6 \<le> length x" for x v
    using that by (auto simp: pq_set_critical_def)
  show ?thesis
    using raised shorter stored by simp
qed

theorem pq_resolve_critical_skips_six_witness:
  "pyerr (pq_resolve_critical 1 (pq_set_critical (Some ''ERROR: connection lost'') ready_world)) =
     Some \<lparr>exc_type = OperationalError, exc_msg = Some '' connection lost'',
           exc_pgerror = None, exc_pgcode = None\<rparr>"
  using pq_resolve_critical_skips_six [of ready_world "[]" 1 "''ERROR: connection lost''"]
  by simp

section \<open>What the building blocks change\<close>

lemma conn_pq_raise:
  "conn (pq_raise b r w) =
     (if PQstatus w = CONNECTION_BAD then (conn w)\<lparr>closed := 2\<rparr> else conn w)"
  unfolding pq_raise_def Let_def
  by (split option.split) simp

lemma curs_pq_raise [simp]: "curs (pq_raise b r w) = curs w"
  unfolding pq_raise_def Let_def
  by (split option.split) (simp add: PyErr_SetString_def psyco_set_error_def)

lemma pyerr_pq_raise [simp]: "pyerr (pq_raise b r w) \<noteq> None"
  unfolding pq_raise_def Let_def
  by (split option.split) (simp add: PyErr_SetString_def psyco_set_error_def)

lemma pyerr_pq_raise_Some [simp]: "\<exists>e. pyerr (pq_raise b r w) = Some e"
  using pyerr_pq_raise [of b r w] by blast

lemma exception_from_sqlstate_database:
  "exception_from_sqlstate x s \<notin> {AttributeError, CallbackError}"
  by (simp add: exception_from_sqlstate_def Let_def)

lemma database_error_pq_raise: "database_error (pyerr (pq_raise b r w))"
proof -
  have str: "database_error (pyerr (PyErr_SetString Error m v))" for m v
    by (simp add: database_error_def PyErr_SetString_def)
  have set: "database_error (pyerr (psyco_set_error e m p c v))"
    if "e \<notin> {AttributeError, CallbackError}" for e m p c v
    using that by (simp add: database_error_def psyco_set_error_def)
  have exc: "(case code of
                Some c \<Rightarrow> exception_from_sqlstate x c
              | None \<Rightarrow> if A then IntegrityError
                         else if B then (if x then TransactionRollbackError else OperationalError)
                         else ProgrammingError) \<notin> {AttributeError, CallbackError}"
    for code x A B
    using exception_from_sqlstate_database by (cases code) auto
  show ?thesis
    unfolding pq_raise_def Let_def
    by (split option.split) (intro conjI impI allI str set exc)
qed

text \<open>
  The exception \<open>pq_raise\<close> sets is made from the status and the error message of the
  session, the result on the cursor, the protocol and the build flags, and from nothing
  else of the state.
\<close>

lemma pyerr_pq_raise_cong:
  assumes "connStatus (pgconn (conn w)) = connStatus (pgconn (conn w'))"
    and "errorMessage (pgconn (conn w)) = errorMessage (pgconn (conn w'))"
    and "(if r = None \<and> b then pgres (curs w) else r) =
         (if r' = None \<and> b' then pgres (curs w') else r')"
    and "HAVE_PQPROTOCOL3 w = HAVE_PQPROTOCOL3 w'"
    and "protocol (conn w) = protocol (conn w')"
    and "PSYCOPG_EXTENSIONS w = PSYCOPG_EXTENSIONS w'"
  shows "pyerr (pq_raise b r w) = pyerr (pq_raise b' r' w')"
proof -
  let ?v = "if PQstatus w = CONNECTION_BAD then w\<lparr>conn := (conn w)\<lparr>closed := 2\<rparr>\<rparr> else w"
  let ?v' = "if PQstatus w' = CONNECTION_BAD then w'\<lparr>conn := (conn w')\<lparr>closed := 2\<rparr>\<rparr> else w'"
  have held: "pgres (curs ?v) = pgres (curs w)" "pgres (curs ?v') = pgres (curs w')"
    by simp_all
  have same: "(if r = None \<and> b then pgres (curs ?v) else r) =
               (if r' = None \<and> b' then pgres (curs ?v') else r')"
    "HAVE_PQPROTOCOL3 ?v = HAVE_PQPROTOCOL3 ?v'"
    "protocol (conn ?v) = protocol (conn ?v')" "PSYCOPG_EXTENSIONS ?v = PSYCOPG_EXTENSIONS ?v'"
    "PQerrorMessage ?v = PQerrorMessage ?v'"
    using assms(1,2,4,5,6) assms(3) [folded held] by (simp_all add: PQerrorMessage_def)
  have made: "pyerr (case x of None \<Rightarrow> PyErr_SetString e1 m1 u
                     | Some e \<Rightarrow> psyco_set_error (f e) m2 x c u) =
           (case x of
              None \<Rightarrow> Some \<lparr>exc_type = e1, exc_msg = m1, exc_pgerror = None, exc_pgcode = None\<rparr>
            | Some e \<Rightarrow> Some \<lparr>exc_type = f e, exc_msg = m2, exc_pgerror = x, exc_pgcode = c\<rparr>)"
    for x e1 m1 u f m2 c
    by (cases x) (simp_all add: PyErr_SetString_def psyco_set_error_def)
  show ?thesis
    unfolding pq_raise_def Let_def made same ..
qed

lemma notice_handler_stored:
  "notice_handler msgs w =
     w\<lparr>conn := (conn w)\<lparr>critical := stored_critical msgs (critical (conn w))\<rparr>\<rparr>"
proof (induction msgs arbitrary: w)
  case Nil
  then show ?case by (simp add: notice_handler_def stored_critical_def)
next
  case (Cons m ms)
  have "notice_handler (m # ms) w = notice_handler ms (pq_set_critical (Some m) w)"
    by (simp add: notice_handler_def)
  then show ?case
    by (simp add: Cons pq_set_critical_def stored_critical_def)
qed

lemma exec_effect:
  assumes "(if \<not> psyco_green w then PQexec q w else psyco_exec_green q w) = (x, w')"
  shows "x = next_answer None (exec_answers (pgconn (conn w)))"
    and "conn w' = (conn w)
           \<lparr>pgconn := (pgconn (conn w))
              \<lparr>exec_answers := tl (exec_answers (pgconn (conn w))),
               exec_notices := tl (exec_notices (pgconn (conn w))),
               sent := sent (pgconn (conn w)) @ [Exec q]\<rparr>,
            critical := stored_critical (next_answer [] (exec_notices (pgconn (conn w))))
                          (critical (conn w))\<rparr>"
    and "curs w' = curs w"
    and "x \<noteq> None \<Longrightarrow> pyerr w' = pyerr w"
    and "x = None \<Longrightarrow> pyerr w' \<noteq> None \<or> pyerr w' = pyerr w"
    and "\<not> psyco_green w \<Longrightarrow> pyerr w' = pyerr w"
    and "PSYCOPG_EXTENSIONS w' = PSYCOPG_EXTENSIONS w \<and> HAVE_PQPROTOCOL3 w' = HAVE_PQPROTOCOL3 w
         \<and> PSYCOPG_DISPLAY_SIZE w' = PSYCOPG_DISPLAY_SIZE w \<and> psyco_green w' = psyco_green w
         \<and> green_error w' = green_error w \<and> psyco_types w' = psyco_types w"
  using assms
  by (auto simp: PQexec_def psyco_exec_green_def notice_handler_stored on_pgconn_def
      split: option.splits if_splits prod.splits)

lemma pq_execute_command_locked_effect:
  assumes "pq_execute_command_locked q w = (rv, res, err, w')"
  shows "rv = (if command_succeeds w then 0 else -1)"
    and "conn w' = (conn w)
           \<lparr>pgconn := (pgconn (conn w))
              \<lparr>exec_answers := tl (exec_answers (pgconn (conn w))),
               exec_notices := tl (exec_notices (pgconn (conn w))),
               sent := sent (pgconn (conn w)) @ [Exec q]\<rparr>,
            critical := stored_critical (next_answer [] (exec_notices (pgconn (conn w))))
                          (critical (conn w))\<rparr>"
    and "curs w' = curs w"
    and "rv = 0 \<Longrightarrow> pyerr w' = pyerr w"
    and "res \<noteq> None \<longleftrightarrow> command_rejected w"
    and "PSYCOPG_EXTENSIONS w' = PSYCOPG_EXTENSIONS w \<and> HAVE_PQPROTOCOL3 w' = HAVE_PQPROTOCOL3 w
         \<and> PSYCOPG_DISPLAY_SIZE w' = PSYCOPG_DISPLAY_SIZE w \<and> psyco_green w' = psyco_green w
         \<and> green_error w' = green_error w \<and> psyco_types w' = psyco_types w"
proof -
  obtain x v where ex: "(if \<not> psyco_green w then PQexec q w else psyco_exec_green q w) = (x, v)"
    by (metis surj_pair)
  note eff = exec_effect [OF ex]
  have w': "w' = v" and rv: "rv = (case x of None \<Rightarrow> -1
      | Some r \<Rightarrow> if resultStatus r \<noteq> PGRES_COMMAND_OK then -1 else 0)"
    and res: "res = (case x of None \<Rightarrow> None
      | Some r \<Rightarrow> if resultStatus r \<noteq> PGRES_COMMAND_OK then Some r else None)"
    using assms ex
    by (auto simp: pq_execute_command_locked_def split: option.splits if_splits)
  show "rv = (if command_succeeds w then 0 else -1)"
    using eff(1) by (simp add: rv command_succeeds_def split: option.splits)
  show "conn w' = (conn w)
           \<lparr>pgconn := (pgconn (conn w))
              \<lparr>exec_answers := tl (exec_answers (pgconn (conn w))),
               exec_notices := tl (exec_notices (pgconn (conn w))),
               sent := sent (pgconn (conn w)) @ [Exec q]\<rparr>,
            critical := stored_critical (next_answer [] (exec_notices (pgconn (conn w))))
                          (critical (conn w))\<rparr>"
    using eff(2) by (simp add: w')
  show "curs w' = curs w"
    using eff(3) by (simp add: w')
  show "pyerr w' = pyerr w" if "rv = 0"
    using that eff(4) by (simp add: w' rv split: option.splits if_splits)
  show "res \<noteq> None \<longleftrightarrow> command_rejected w"
    using eff(1) by (simp add: res command_rejected_def split: option.splits)
  show "PSYCOPG_EXTENSIONS w' = PSYCOPG_EXTENSIONS w \<and> HAVE_PQPROTOCOL3 w' = HAVE_PQPROTOCOL3 w
         \<and> PSYCOPG_DISPLAY_SIZE w' = PSYCOPG_DISPLAY_SIZE w \<and> psyco_green w' = psyco_green w
         \<and> green_error w' = green_error w \<and> psyco_types w' = psyco_types w"
    using eff(7) by (simp add: w')
qed

lemma conn_pq_complete_error:
  "conn (pq_complete_error res err w) =
     (if res \<noteq> None \<and> PQstatus w = CONNECTION_BAD then (conn w)\<lparr>closed := 2\<rparr> else conn w)"
  by (simp add: pq_complete_error_def conn_pq_raise)

lemma curs_pq_complete_error: "curs (pq_complete_error res err w) = curs w"
  by (simp add: pq_complete_error_def PyErr_SetString_def)

lemma pyerr_pq_complete_error: "pyerr (pq_complete_error res err w) \<noteq> None"
  by (simp add: pq_complete_error_def PyErr_SetString_def)

section \<open>Transactions\<close>

lemma pq_commit_effect:
  assumes "status (conn w) = CONN_STATUS_BEGIN" and "isolation_level (conn w) \<noteq> 0"
  shows "status (conn (snd (pq_commit w))) = CONN_STATUS_READY"
    and "mark (conn (snd (pq_commit w))) = mark (conn w) + 1"
    and "fst (pq_commit w) = (if command_succeeds w then 0 else -1)"
    and "sent (pgconn (conn (snd (pq_commit w)))) =
           sent (pgconn (conn w)) @ [Exec (Some ''COMMIT'')]"
    and "curs (snd (pq_commit w)) = curs w"
    and "conn (snd (pq_commit w)) =
           (conn w)\<lparr>pgconn := (pgconn (conn w))
                       \<lparr>exec_answers := tl (exec_answers (pgconn (conn w))),
                        exec_notices := tl (exec_notices (pgconn (conn w))),
                        sent := sent (pgconn (conn w)) @ [Exec (Some ''COMMIT'')]\<rparr>,
                    critical := stored_critical
                                  (next_answer [] (exec_notices (pgconn (conn w))))
                                  (critical (conn w)),
                    mark := mark (conn w) + 1,
                    status := CONN_STATUS_READY,
                    closed := (if command_rejected w \<and> PQstatus w = CONNECTION_BAD
                               then 2 else closed (conn w))\<rparr>"
    and "command_succeeds w \<Longrightarrow> pyerr (snd (pq_commit w)) = pyerr w"
    and "\<not> command_succeeds w \<Longrightarrow> pyerr (snd (pq_commit w)) \<noteq> None"
proof -
  let ?w1 = "w\<lparr>conn := (conn w)\<lparr>mark := mark (conn w) + 1\<rparr>\<rparr>"
  obtain rv res err w2
    where ex: "pq_execute_command_locked (Some ''COMMIT'') ?w1 = (rv, res, err, w2)"
    by (metis prod_cases4)
  note eff = pq_execute_command_locked_effect [OF ex]
  have cs: "command_succeeds ?w1 = command_succeeds w"
    by (simp add: command_succeeds_def)
  have cr: "command_rejected ?w1 = command_rejected w"
    by (simp add: command_rejected_def)
  have ok_not_rejected: "\<not> command_rejected w" if "command_succeeds w"
    using that by (simp add: command_succeeds_def command_rejected_def split: option.splits)
  have st: "PQstatus w2 = PQstatus w"
    using eff(2) by (simp add: PQstatus_def)
  have com: "pq_commit w =
      (rv, (let w4 = (if rv < 0 then pq_complete_error res err w2 else w2)
            in w4\<lparr>conn := (conn w4)\<lparr>status := CONN_STATUS_READY\<rparr>\<rparr>))"
    using assms by (simp add: pq_commit_def Let_def ex conn_notice_process_def)
  show "status (conn (snd (pq_commit w))) = CONN_STATUS_READY"
    by (simp add: com Let_def)
  show "mark (conn (snd (pq_commit w))) = mark (conn w) + 1"
    using eff(2) by (simp add: com Let_def conn_pq_complete_error)
  show "fst (pq_commit w) = (if command_succeeds w then 0 else -1)"
    using eff(1) cs by (simp add: com)
  show "sent (pgconn (conn (snd (pq_commit w)))) =
           sent (pgconn (conn w)) @ [Exec (Some ''COMMIT'')]"
    using eff(2) by (simp add: com Let_def conn_pq_complete_error)
  show "curs (snd (pq_commit w)) = curs w"
    using eff(3) by (simp add: com Let_def curs_pq_complete_error)
  show "conn (snd (pq_commit w)) =
           (conn w)\<lparr>pgconn := (pgconn (conn w))
                       \<lparr>exec_answers := tl (exec_answers (pgconn (conn w))),
                        exec_notices := tl (exec_notices (pgconn (conn w))),
                        sent := sent (pgconn (conn w)) @ [Exec (Some ''COMMIT'')]\<rparr>,
                    critical := stored_critical
                                  (next_answer [] (exec_notices (pgconn (conn w))))
                                  (critical (conn w)),
                    mark := mark (conn w) + 1,
                    status := CONN_STATUS_READY,
                    closed := (if command_rejected w \<and> PQstatus w = CONNECTION_BAD
                               then 2 else closed (conn w))\<rparr>"
  proof (cases "command_succeeds w")
    case True
    with eff(1) cs have "rv = 0" by simp
    with eff(2) ok_not_rejected [OF True] show ?thesis
      by (simp add: com Let_def)
  next
    case False
    with eff(1) cs have "rv = -1" by simp
    with eff(2,5) cr st show ?thesis
      by (simp add: com Let_def conn_pq_complete_error)
  qed
  show "pyerr (snd (pq_commit w)) = pyerr w" if "command_succeeds w"
    using eff(1,4) cs that by (simp add: com Let_def)
  show "pyerr (snd (pq_commit w)) \<noteq> None" if "\<not> command_succeeds w"
    using eff(1) cs that pyerr_pq_complete_error [of res err w2] by (simp add: com Let_def)
qed

text \<open>
  C4 (amended). Called in \<open>BEGIN\<close> with a nonzero isolation level, \<open>pq_commit\<close> leaves
  the status \<open>READY\<close> and the mark one higher, whatever the backend answers to \<open>COMMIT\<close>.
  The value returned distinguishes the two outcomes, 0 when the command succeeded and -1
  when it did not, and so do two effects of a failure: the -1 comes with an exception
  set (the 0 leaves the error indicator as it was), and when the backend answered with
  an error result on a broken session the connection is marked \<open>closed = 2\<close>. Nothing
  else differs: the cursor is untouched and the rest of the connection object ends in
  the same state for both answers, the command logged as sent and the critical
  message what the notice handler stored while the answer was read.
\<close>

theorem pq_commit_unconditional:
  assumes "status (conn w) = CONN_STATUS_BEGIN" and "isolation_level (conn w) \<noteq> 0"
  shows "status (conn (snd (pq_commit w))) = CONN_STATUS_READY \<and>
         mark (conn (snd (pq_commit w))) = mark (conn w) + 1 \<and>
         fst (pq_commit w) = (if command_succeeds w then 0 else -1) \<and>
         (command_succeeds w \<longrightarrow> pyerr (snd (pq_commit w)) = pyerr w) \<and>
         (\<not> command_succeeds w \<longrightarrow> pyerr (snd (pq_commit w)) \<noteq> None) \<and>
         curs (snd (pq_commit w)) = curs w \<and>
         conn (snd (pq_commit w)) =
           (conn w)\<lparr>pgconn := (pgconn (conn w))
                       \<lparr>exec_answers := tl (exec_answers (pgconn (conn w))),
                        exec_notices := tl (exec_notices (pgconn (conn w))),
                        sent := sent (pgconn (conn w)) @ [Exec (Some ''COMMIT'')]\<rparr>,
                    critical := stored_critical
                                  (next_answer [] (exec_notices (pgconn (conn w))))
                                  (critical (conn w)),
                    mark := mark (conn w) + 1,
                    status := CONN_STATUS_READY,
                    closed := (if command_rejected w \<and> PQstatus w = CONNECTION_BAD
                               then 2 else closed (conn w))\<rparr>"
  using pq_commit_effect [OF assms] by simp

theorem pq_commit_unconditional_witness:
  "fst (pq_commit (with_status CONN_STATUS_BEGIN (with_exec_answers [Some command_ok] ready_world)))
     = 0 \<and>
   status (conn (snd (pq_commit
     (with_status CONN_STATUS_BEGIN (with_exec_answers [Some command_ok] ready_world)))))
     = CONN_STATUS_READY \<and>
   mark (conn (snd (pq_commit
     (with_status CONN_STATUS_BEGIN (with_exec_answers [Some command_ok] ready_world))))) = 1 \<and>
   fst (pq_commit (with_status CONN_STATUS_BEGIN (with_exec_answers [Some fatal_error] ready_world)))
     = -1 \<and>
   status (conn (snd (pq_commit
     (with_status CONN_STATUS_BEGIN (with_exec_answers [Some fatal_error] ready_world)))))
     = CONN_STATUS_READY \<and>
   mark (conn (snd (pq_commit
     (with_status CONN_STATUS_BEGIN (with_exec_answers [Some fatal_error] ready_world))))) = 1"
  using pq_commit_unconditional
          [of "with_status CONN_STATUS_BEGIN (with_exec_answers [Some command_ok] ready_world)"]
        pq_commit_unconditional
          [of "with_status CONN_STATUS_BEGIN (with_exec_answers [Some fatal_error] ready_world)"]
  by (simp add: example_defs command_succeeds_def)

text \<open>
  The claim as stated fails in its last clause: the return value is not all that tells
  the two outcomes apart. On a session that has gone bad, a \<open>COMMIT\<close> answered with an
  error result leaves the connection marked \<open>closed = 2\<close> and an exception set; the same
  call answered with \<open>PGRES_COMMAND_OK\<close> leaves \<open>closed\<close> at 0 and no exception.
\<close>

theorem pq_commit_failure_leaves_traces:
  "fst (pq_commit (with_status CONN_STATUS_BEGIN
     (with_exec_answers [Some command_ok] (with_connStatus CONNECTION_BAD ready_world)))) = 0 \<and>
   closed (conn (snd (pq_commit (with_status CONN_STATUS_BEGIN
     (with_exec_answers [Some command_ok] (with_connStatus CONNECTION_BAD ready_world)))))) = 0 \<and>
   pyerr (snd (pq_commit (with_status CONN_STATUS_BEGIN
     (with_exec_answers [Some command_ok] (with_connStatus CONNECTION_BAD ready_world))))) = None \<and>
   fst (pq_commit (with_status CONN_STATUS_BEGIN
     (with_exec_answers [Some fatal_error] (with_connStatus CONNECTION_BAD ready_world)))) = -1 \<and>
   closed (conn (snd (pq_commit (with_status CONN_STATUS_BEGIN
     (with_exec_answers [Some fatal_error] (with_connStatus CONNECTION_BAD ready_world)))))) = 2 \<and>
   pyerr (snd (pq_commit (with_status CONN_STATUS_BEGIN
     (with_exec_answers [Some fatal_error] (with_connStatus CONNECTION_BAD ready_world))))) =
     Some \<lparr>exc_type = TransactionRollbackError, exc_msg = Some ''deadlock detected'',
           exc_pgerror = Some ''ERROR:  deadlock detected'', exc_pgcode = Some ''40P01''\<rparr>"
  by (simp add: pq_commit_def pq_execute_command_locked_def PQexec_def notice_handler_def Let_def
      conn_notice_process_def pq_complete_error_def pq_raise_def PQstatus_def PQerrorMessage_def
      psyco_set_error_def exception_from_sqlstate_def cchar_def strip_severity_def
      strncmp_eq_def with_connStatus_def example_defs)

lemma pq_begin_locked_noop:
  "isolation_level (conn w) = 0 \<or> status (conn w) \<noteq> CONN_STATUS_READY \<Longrightarrow>
   pq_begin_locked w = (0, None, None, w)"
  by (auto simp: pq_begin_locked_def)

lemma pq_begin_locked_issue:
  assumes "status (conn w) = CONN_STATUS_READY" and "isolation_level (conn w) \<noteq> 0"
  shows "fst (pq_begin_locked w) = (if command_succeeds w then 0 else -1)"
    and "conn (begun w) = (conn w)
           \<lparr>pgconn := (pgconn (conn w))
              \<lparr>exec_answers := tl (exec_answers (pgconn (conn w))),
               exec_notices := tl (exec_notices (pgconn (conn w))),
               sent := sent (pgconn (conn w)) @ [Exec (begin_query (isolation_level (conn w)))]\<rparr>,
            critical := stored_critical (next_answer [] (exec_notices (pgconn (conn w))))
                          (critical (conn w)),
            status := (if command_succeeds w then CONN_STATUS_BEGIN else CONN_STATUS_READY)\<rparr>"
proof -
  obtain rv r e w' where ex:
    "pq_execute_command_locked (begin_query (isolation_level (conn w))) w = (rv, r, e, w')"
    by (metis prod_cases4)
  note eff = pq_execute_command_locked_effect [OF ex]
  have beg: "pq_begin_locked w =
      (rv, r, e, if rv = 0 then w'\<lparr>conn := (conn w')\<lparr>status := CONN_STATUS_BEGIN\<rparr>\<rparr> else w')"
    using assms ex by (simp add: pq_begin_locked_def)
  show "fst (pq_begin_locked w) = (if command_succeeds w then 0 else -1)"
    using eff(1) by (simp add: beg)
  show "conn (begun w) = (conn w)
           \<lparr>pgconn := (pgconn (conn w))
              \<lparr>exec_answers := tl (exec_answers (pgconn (conn w))),
               exec_notices := tl (exec_notices (pgconn (conn w))),
               sent := sent (pgconn (conn w)) @ [Exec (begin_query (isolation_level (conn w)))]\<rparr>,
            critical := stored_critical (next_answer [] (exec_notices (pgconn (conn w))))
                          (critical (conn w)),
            status := (if command_succeeds w then CONN_STATUS_BEGIN else CONN_STATUS_READY)\<rparr>"
    using eff(1,2) assms(1) by (cases "command_succeeds w") (auto simp: begun_def beg)
qed

text \<open>
  C2 (amended). From status \<open>READY\<close> with isolation level 1 or 2 (the levels the table
  of \<open>pq_begin_locked\<close> has a command for), and when the backend accepts the \<open>BEGIN\<close>
  command, \<open>pq_begin_locked\<close> returns 0 and leaves the connection in \<open>BEGIN\<close> with the mark
  unchanged; a following \<open>pq_commit\<close> leaves it in \<open>READY\<close> with the mark one higher
  than at the start, and the two commands sent are the \<open>BEGIN\<close> of that level and
  \<open>COMMIT\<close>. When the isolation level is 0 or the status is not \<open>READY\<close>,
  \<open>pq_begin_locked\<close> returns 0 and the state it was given: nothing is sent, status and
  mark are unchanged.
\<close>

theorem begin_then_commit:
  "(status (conn w) = CONN_STATUS_READY \<and> isolation_level (conn w) \<in> {1, 2} \<and>
    command_succeeds w \<longrightarrow>
      fst (pq_begin_locked w) = 0 \<and>
      status (conn (begun w)) = CONN_STATUS_BEGIN \<and>
      mark (conn (begun w)) = mark (conn w) \<and>
      status (conn (snd (pq_commit (begun w)))) = CONN_STATUS_READY \<and>
      mark (conn (snd (pq_commit (begun w)))) = mark (conn w) + 1 \<and>
      sent (pgconn (conn (snd (pq_commit (begun w))))) =
        sent (pgconn (conn w)) @
          [Exec (begin_query (isolation_level (conn w))), Exec (Some ''COMMIT'')]) \<and>
   (isolation_level (conn w) = 0 \<or> status (conn w) \<noteq> CONN_STATUS_READY \<longrightarrow>
      pq_begin_locked w = (0, None, None, w))"
proof (intro conjI impI)
  assume a: "status (conn w) = CONN_STATUS_READY \<and> isolation_level (conn w) \<in> {1, 2} \<and>
    command_succeeds w"
  then have lvl: "isolation_level (conn w) \<noteq> 0" and rdy: "status (conn w) = CONN_STATUS_READY"
    and ok: "command_succeeds w"
    by auto
  note eff = pq_begin_locked_issue [OF rdy lvl]
  have c1: "conn (begun w) = (conn w)
           \<lparr>pgconn := (pgconn (conn w))
              \<lparr>exec_answers := tl (exec_answers (pgconn (conn w))),
               exec_notices := tl (exec_notices (pgconn (conn w))),
               sent := sent (pgconn (conn w)) @ [Exec (begin_query (isolation_level (conn w)))]\<rparr>,
            critical := stored_critical (next_answer [] (exec_notices (pgconn (conn w))))
                          (critical (conn w)),
            status := CONN_STATUS_BEGIN\<rparr>"
    using eff(2) ok by simp
  have st1: "status (conn (begun w)) = CONN_STATUS_BEGIN"
    and lv1: "isolation_level (conn (begun w)) \<noteq> 0"
    using c1 lvl by simp_all
  note com = pq_commit_effect [OF st1 lv1]
  show "fst (pq_begin_locked w) = 0"
    using eff(1) ok by simp
  show "status (conn (begun w)) = CONN_STATUS_BEGIN"
    by (rule st1)
  show "mark (conn (begun w)) = mark (conn w)"
    using c1 by simp
  show "status (conn (snd (pq_commit (begun w)))) = CONN_STATUS_READY"
    by (rule com(1))
  show "mark (conn (snd (pq_commit (begun w)))) = mark (conn w) + 1"
    using com(2) c1 by simp
  show "sent (pgconn (conn (snd (pq_commit (begun w))))) =
        sent (pgconn (conn w)) @
          [Exec (begin_query (isolation_level (conn w))), Exec (Some ''COMMIT'')]"
    using com(4) c1 by simp
next
  assume "isolation_level (conn w) = 0 \<or> status (conn w) \<noteq> CONN_STATUS_READY"
  then show "pq_begin_locked w = (0, None, None, w)"
    by (rule pq_begin_locked_noop)
qed

theorem begin_then_commit_witness:
  "fst (pq_begin_locked (with_exec_answers [Some command_ok, Some command_ok] ready_world)) = 0 \<and>
   status (conn (begun (with_exec_answers [Some command_ok, Some command_ok] ready_world)))
     = CONN_STATUS_BEGIN \<and>
   status (conn (snd (pq_commit
     (begun (with_exec_answers [Some command_ok, Some command_ok] ready_world)))))
     = CONN_STATUS_READY \<and>
   mark (conn (snd (pq_commit
     (begun (with_exec_answers [Some command_ok, Some command_ok] ready_world))))) = 1 \<and>
   sent (pgconn (conn (snd (pq_commit
     (begun (with_exec_answers [Some command_ok, Some command_ok] ready_world)))))) =
     [Exec (Some ''BEGIN; SET TRANSACTION ISOLATION LEVEL READ COMMITTED''),
      Exec (Some ''COMMIT'')] \<and>
   pq_begin_locked (with_status CONN_STATUS_BEGIN ready_world) =
     (0, None, None, with_status CONN_STATUS_BEGIN ready_world)"
  using begin_then_commit [of "with_exec_answers [Some command_ok, Some command_ok] ready_world"]
        begin_then_commit [of "with_status CONN_STATUS_BEGIN ready_world"]
  by (simp add: example_defs command_succeeds_def begin_query_def)

text \<open>
  The claim as stated fails when the backend refuses the \<open>BEGIN\<close> command: from \<open>READY\<close>
  at isolation level 1, \<open>pq_begin_locked\<close> returns -1 and the status stays \<open>READY\<close>; the
  \<open>pq_commit\<close> that follows does nothing, and the mark is what it was.
\<close>

theorem begin_refused_commit_noop:
  "status (conn (with_exec_answers [Some fatal_error, Some command_ok] ready_world))
     = CONN_STATUS_READY \<and>
   isolation_level (conn (with_exec_answers [Some fatal_error, Some command_ok] ready_world)) = 1 \<and>
   fst (pq_begin_locked (with_exec_answers [Some fatal_error, Some command_ok] ready_world)) = -1 \<and>
   status (conn (begun (with_exec_answers [Some fatal_error, Some command_ok] ready_world)))
     = CONN_STATUS_READY \<and>
   pq_commit (begun (with_exec_answers [Some fatal_error, Some command_ok] ready_world)) =
     (0, begun (with_exec_answers [Some fatal_error, Some command_ok] ready_world)) \<and>
   mark (conn (snd (pq_commit
     (begun (with_exec_answers [Some fatal_error, Some command_ok] ready_world))))) =
     mark (conn (with_exec_answers [Some fatal_error, Some command_ok] ready_world))"
  by (simp add: begun_def pq_begin_locked_def pq_execute_command_locked_def PQexec_def
      begin_query_def pq_commit_def example_defs)

section \<open>Fetching a command result\<close>

lemma atoi_digits_decimal:
  "list_all isdigit t \<Longrightarrow> atoi_digits acc t = acc * 10 ^ length t + decimal_value t"
  by (induction t arbitrary: acc) (simp_all add: algebra_simps)

lemma isdigit_plain:
  "isdigit c \<Longrightarrow> \<not> isspace c \<and> c \<noteq> CHR ''-'' \<and> c \<noteq> CHR ''+'' \<and> c \<noteq> CHR 0x00"
  by (auto simp: isdigit_def isspace_def)

lemma strtol_decimal:
  assumes "t \<noteq> []" and "list_all isdigit t"
  shows "strtol t = (if decimal_value t > LONG_MAX then LONG_MAX else decimal_value t)"
proof -
  from assms obtain c cs where t: "t = c # cs" and c: "isdigit c"
    by (cases t) auto
  from c have "\<not> isspace c" "c \<noteq> CHR ''-''" "c \<noteq> CHR ''+''"
    using isdigit_plain by blast+
  then have v: "strtol t =
      (let v = atoi_digits 0 t
       in if v > LONG_MAX then LONG_MAX else if v < LONG_MIN then LONG_MIN else v)"
    by (simp add: strtol_def t)
  have d: "atoi_digits 0 t = decimal_value t"
    using assms by (simp add: atoi_digits_decimal)
  have "0 \<le> decimal_value u" if "list_all isdigit u" for u
    using that by (induction u) (auto simp: isdigit_def digit_value_def)
  with assms have "0 \<le> decimal_value t" by simp
  then show ?thesis
    by (simp add: v d Let_def LONG_MIN_def)
qed

lemma int_of_long_range: "- 2147483648 \<le> int_of_long v \<and> int_of_long v \<le> INT_MAX"
  by (simp add: int_of_long_def INT_MAX_def)

lemma int_of_long_small: "0 \<le> v \<Longrightarrow> v \<le> INT_MAX \<Longrightarrow> int_of_long v = v"
  by (simp add: int_of_long_def INT_MAX_def)

lemma rowcount_pq_fetch_command:
  assumes "pgres (curs w) = Some r" and "resultStatus r = PGRES_COMMAND_OK"
  shows "rowcount (curs (snd (pq_fetch w))) =
           (case cmdTuples r of
              None \<Rightarrow> -1
            | Some t \<Rightarrow> if cchar t 0 = CHR 0x00 then -1 else atoi t)"
  using assms
  by (simp add: pq_fetch_def curs_reset_def Let_def pq_fetch_result_def set_rowcount_def
      set_pgres_def conn_notice_process_def conn_notifies_process_def curs_pq_resolve_critical)

text \<open>
  C8 (amended). When \<open>pq_fetch\<close> finds a \<open>PGRES_COMMAND_OK\<close> result on the cursor, the row
  count it leaves is -1 if \<open>PQcmdTuples\<close> gives no text or the empty text. For a text of
  decimal digits it is the \<open>int\<close> that \<open>atoi\<close> returns: the integer the text denotes when
  that is at most \<open>INT_MAX\<close>, so \<open>"3"\<close> gives 3; a larger count is cut to 32 bits (after
  saturation at \<open>LONG_MAX\<close>) and the row count then differs from what the text denotes.
\<close>

theorem pq_fetch_command_rowcount:
  assumes "pgres (curs w) = Some r" and "resultStatus r = PGRES_COMMAND_OK"
  shows "(cmdTuples r = None \<or> cmdTuples r = Some [] \<longrightarrow>
            rowcount (curs (snd (pq_fetch w))) = -1) \<and>
         (\<forall>t. cmdTuples r = Some t \<and> t \<noteq> [] \<and> list_all isdigit t \<longrightarrow>
            rowcount (curs (snd (pq_fetch w))) =
              int_of_long (if decimal_value t > LONG_MAX then LONG_MAX else decimal_value t) \<and>
            (decimal_value t \<le> INT_MAX \<longrightarrow>
               rowcount (curs (snd (pq_fetch w))) = decimal_value t) \<and>
            (decimal_value t > INT_MAX \<longrightarrow>
               rowcount (curs (snd (pq_fetch w))) \<noteq> decimal_value t))"
proof -
  have nz: "cchar t 0 \<noteq> CHR 0x00" if "t \<noteq> []" "list_all isdigit t" for t
    using that isdigit_plain by (cases t) (auto simp: cchar_def)
  have nonneg: "0 \<le> decimal_value t" if "list_all isdigit t" for t
    using that by (induction t) (auto simp: isdigit_def digit_value_def)
  have row: "rowcount (curs (snd (pq_fetch w))) =
      int_of_long (if decimal_value t > LONG_MAX then LONG_MAX else decimal_value t)"
    if "cmdTuples r = Some t" "t \<noteq> []" "list_all isdigit t" for t
    using rowcount_pq_fetch_command [OF assms] that nz [of t] strtol_decimal [of t]
    by (simp add: atoi_def)
  have small: "rowcount (curs (snd (pq_fetch w))) = decimal_value t"
    if "cmdTuples r = Some t" "t \<noteq> []" "list_all isdigit t" "decimal_value t \<le> INT_MAX" for t
    using row [OF that(1,2,3)] that(4) nonneg [OF that(3)] int_of_long_small [of "decimal_value t"]
    by (simp add: LONG_MAX_def INT_MAX_def)
  have large: "rowcount (curs (snd (pq_fetch w))) \<noteq> decimal_value t"
    if "cmdTuples r = Some t" "t \<noteq> []" "list_all isdigit t" "decimal_value t > INT_MAX" for t
    using row [OF that(1,2,3)] that(4)
      int_of_long_range [of "if decimal_value t > LONG_MAX then LONG_MAX else decimal_value t"]
    by auto
  have empty: "rowcount (curs (snd (pq_fetch w))) = -1"
    if "cmdTuples r = None \<or> cmdTuples r = Some []"
    using rowcount_pq_fetch_command [OF assms] that by (auto simp: cchar_def)
  show ?thesis
    using empty row small large by blast
qed

theorem pq_fetch_command_rowcount_witness:
  "rowcount (curs (snd (pq_fetch (set_pgres (Some command_ok) ready_world)))) = 3 \<and>
   rowcount (curs (snd (pq_fetch
     (set_pgres (Some (command_ok\<lparr>cmdTuples := Some []\<rparr>)) ready_world)))) = -1 \<and>
   rowcount (curs (snd (pq_fetch
     (set_pgres (Some (command_ok\<lparr>cmdTuples := None\<rparr>)) ready_world)))) = -1"
  using pq_fetch_command_rowcount [of "set_pgres (Some command_ok) ready_world" command_ok]
        pq_fetch_command_rowcount
          [of "set_pgres (Some (command_ok\<lparr>cmdTuples := Some []\<rparr>)) ready_world"
              "command_ok\<lparr>cmdTuples := Some []\<rparr>"]
        pq_fetch_command_rowcount
          [of "set_pgres (Some (command_ok\<lparr>cmdTuples := None\<rparr>)) ready_world"
              "command_ok\<lparr>cmdTuples := None\<rparr>"]
  by (simp add: example_defs set_pgres_def isdigit_def digit_value_def INT_MAX_def LONG_MAX_def)

text \<open>
  The claim as stated fails for a count beyond the range of \<open>int\<close>: the text
  \<open>"2147483648"\<close> denotes 2147483648, and the row count stored is \<open>-2147483648\<close>; the text
  \<open>"4294967299"\<close> leaves 3.
\<close>

theorem pq_fetch_command_rowcount_overflow:
  "decimal_value ''2147483648'' = 2147483648 \<and>
   rowcount (curs (snd (pq_fetch
     (set_pgres (Some (command_ok\<lparr>cmdTuples := Some ''2147483648''\<rparr>)) ready_world)))) =
     - 2147483648 \<and>
   decimal_value ''4294967299'' = 4294967299 \<and>
   rowcount (curs (snd (pq_fetch
     (set_pgres (Some (command_ok\<lparr>cmdTuples := Some ''4294967299''\<rparr>)) ready_world)))) = 3"
  by (simp add: pq_fetch_def curs_reset_def Let_def pq_fetch_result_def set_rowcount_def
      set_pgres_def conn_notice_process_def conn_notifies_process_def cchar_def atoi_def
      strtol_def int_of_long_def isspace_def isdigit_def digit_value_def LONG_MAX_def
      LONG_MIN_def example_defs)

section \<open>Executing a query\<close>


























section \<open>COPY\<close>

subsection \<open>The pending results are drained\<close>

lemma get_results_loop_Nil:
  "result_queue (pgconn (conn w)) = [] \<Longrightarrow> get_results_loop w = set_pgres None w"
  by (subst get_results_loop.simps) (simp add: PQgetResult_def)

lemma get_results_loop_Cons:
  "result_queue (pgconn (conn w)) = r # rs \<Longrightarrow>
   get_results_loop w =
     get_results_loop
       (set_pgres None
          (if resultStatus r = PGRES_FATAL_ERROR
           then pq_raise True None (set_pgres (Some r) (on_pgconn (\<lambda>pg. pg\<lparr>result_queue := rs\<rparr>) w))
           else set_pgres (Some r) (on_pgconn (\<lambda>pg. pg\<lparr>result_queue := rs\<rparr>) w)))"
  by (subst get_results_loop.simps) (simp add: PQgetResult_def Let_def)

lemma pgconn_get_results_loop:
  "pgconn (conn (get_results_loop w)) = (pgconn (conn w))\<lparr>result_queue := []\<rparr>"
proof (induction "result_queue (pgconn (conn w))" arbitrary: w)
  case Nil
  then show ?case
    by (simp add: get_results_loop_Nil [OF Nil [symmetric]] set_pgres_def)
next
  case (Cons r rs)
  note step = get_results_loop_Cons [OF Cons(2) [symmetric]]
  show ?case
    by (subst step, subst Cons(1)) (simp_all add: set_pgres_def on_pgconn_def)
qed

lemma curs_get_results_loop:
  "curs (get_results_loop w) = (curs w)\<lparr>pgres := None\<rparr>"
proof (induction "result_queue (pgconn (conn w))" arbitrary: w)
  case Nil
  then show ?case
    by (simp add: get_results_loop_Nil [OF Nil [symmetric]] set_pgres_def)
next
  case (Cons r rs)
  note step = get_results_loop_Cons [OF Cons(2) [symmetric]]
  show ?case
    by (subst step, subst Cons(1)) (simp_all add: set_pgres_def on_pgconn_def)
qed

lemma pyerr_get_results_loop_kept:
  "pyerr w \<noteq> None \<Longrightarrow> pyerr (get_results_loop w) \<noteq> None"
proof (induction "result_queue (pgconn (conn w))" arbitrary: w)
  case Nil
  then show ?case
    by (simp add: get_results_loop_Nil [OF Nil(1) [symmetric]] set_pgres_def)
next
  case (Cons r rs)
  note step = get_results_loop_Cons [OF Cons(2) [symmetric]]
  show ?case
    using Cons(3)
    by (subst step, intro Cons(1)) (simp_all add: set_pgres_def on_pgconn_def)
qed

lemma pyerr_get_results_loop_fatal:
  "\<exists>r \<in> set (result_queue (pgconn (conn w))). resultStatus r = PGRES_FATAL_ERROR \<Longrightarrow>
   pyerr (get_results_loop w) \<noteq> None"
proof (induction "result_queue (pgconn (conn w))" arbitrary: w)
  case Nil
  then show ?case by simp
next
  case (Cons r rs)
  note step = get_results_loop_Cons [OF Cons(2) [symmetric]]
  show ?case
  proof (cases "resultStatus r = PGRES_FATAL_ERROR")
    case True
    show ?thesis
      by (subst step, rule pyerr_get_results_loop_kept) (simp add: True set_pgres_def)
  next
    case False
    with Cons(3) Cons(2) [symmetric] have "\<exists>x \<in> set rs. resultStatus x = PGRES_FATAL_ERROR"
      by auto
    then show ?thesis
      by (subst step, intro Cons(1)) (simp_all add: False set_pgres_def on_pgconn_def)
  qed
qed

lemma database_error_get_results_loop_kept:
  "database_error (pyerr w) \<Longrightarrow> database_error (pyerr (get_results_loop w))"
proof (induction "result_queue (pgconn (conn w))" arbitrary: w)
  case Nil
  then show ?case
    by (simp add: get_results_loop_Nil [OF Nil(1) [symmetric]] set_pgres_def)
next
  case (Cons r rs)
  note step = get_results_loop_Cons [OF Cons(2) [symmetric]]
  show ?case
    using Cons(3)
    by (subst step, intro Cons(1))
       (simp_all add: set_pgres_def on_pgconn_def database_error_pq_raise)
qed

lemma database_error_get_results_loop_fatal:
  "\<exists>r \<in> set (result_queue (pgconn (conn w))). resultStatus r = PGRES_FATAL_ERROR \<Longrightarrow>
   database_error (pyerr (get_results_loop w))"
proof (induction "result_queue (pgconn (conn w))" arbitrary: w)
  case Nil
  then show ?case by simp
next
  case (Cons r rs)
  note step = get_results_loop_Cons [OF Cons(2) [symmetric]]
  show ?case
  proof (cases "resultStatus r = PGRES_FATAL_ERROR")
    case True
    show ?thesis
      by (subst step, rule database_error_get_results_loop_kept)
         (simp add: True set_pgres_def database_error_pq_raise)
  next
    case False
    with Cons(3) Cons(2) [symmetric] have "\<exists>x \<in> set rs. resultStatus x = PGRES_FATAL_ERROR"
      by auto
    then show ?thesis
      by (subst step, intro Cons(1)) (simp_all add: False set_pgres_def on_pgconn_def)
  qed
qed

lemma pyerr_get_results_loop_clean:
  "\<forall>r \<in> set (result_queue (pgconn (conn w))). resultStatus r \<noteq> PGRES_FATAL_ERROR \<Longrightarrow>
   pyerr (get_results_loop w) = pyerr w"
proof (induction "result_queue (pgconn (conn w))" arbitrary: w)
  case Nil
  then show ?case
    by (simp add: get_results_loop_Nil [OF Nil(1) [symmetric]] set_pgres_def)
next
  case (Cons r rs)
  note step = get_results_loop_Cons [OF Cons(2) [symmetric]]
  from Cons(3) Cons(2) [symmetric] have nf: "resultStatus r \<noteq> PGRES_FATAL_ERROR"
    and rest: "\<forall>x \<in> set rs. resultStatus x \<noteq> PGRES_FATAL_ERROR"
    by auto
  show ?case
    using rest
    by (subst step, subst Cons(1)) (simp_all add: nf set_pgres_def on_pgconn_def)
qed

subsection \<open>COPY FROM on protocol 3\<close>

lemma copy_in_v3_loop_chunk:
  assumes "read_answers (copyfile (curs w)) = PyString s # rest"
    and "s \<noteq> []" and "int (length s) \<le> INT_MAX"
    and "next_answer 1 (putCopyData_answers (pgconn (conn w))) \<noteq> -1"
  shows "copy_in_v3_loop w = copy_in_v3_loop (chunk_sent s w)"
  using assms
  by (subst copy_in_v3_loop.simps)
     (simp add: chunk_sent_def file_read_def PQputCopyData_def next_answer_def Let_def
        on_copyfile_def on_pgconn_def)

lemma copy_in_v3_loop_eof:
  assumes "read_answers (copyfile (curs w)) = PyString [] # rest"
  shows "copy_in_v3_loop w = (0, snd (file_read w))"
  using assms
  by (subst copy_in_v3_loop.simps)
     (simp add: file_read_def next_answer_def Let_def)

lemma chunk_sent_effect:
  assumes "read_answers (copyfile (curs w)) = PyString s # rest"
  shows "read_answers (copyfile (curs (chunk_sent s w))) = rest"
    and "putCopyData_answers (pgconn (conn (chunk_sent s w))) = tl (putCopyData_answers (pgconn (conn w)))"
    and "putCopyEnd_answers (pgconn (conn (chunk_sent s w))) = putCopyEnd_answers (pgconn (conn w))"
    and "sent (pgconn (conn (chunk_sent s w))) = sent (pgconn (conn w)) @ [PutCopyData s]"
    and "result_queue (pgconn (conn (chunk_sent s w))) = result_queue (pgconn (conn w))"
    and "pyerr (chunk_sent s w) = pyerr w"
  using assms
  by (simp_all add: chunk_sent_def file_read_def PQputCopyData_def next_answer_def Let_def
        on_copyfile_def on_pgconn_def)

lemma eof_read_effect:
  assumes "read_answers (copyfile (curs w)) = PyString [] # rest"
  shows "conn (snd (file_read w)) = conn w" and "pyerr (snd (file_read w)) = pyerr w"
  using assms
  by (simp_all add: file_read_def next_answer_def Let_def on_copyfile_def)

lemma take_two_answers:
  assumes "-1 \<notin> set (take 2 xs)"
  shows "next_answer (1::int) xs \<noteq> -1" and "next_answer (1::int) (tl xs) \<noteq> -1"
proof -
  show "next_answer (1::int) xs \<noteq> -1"
    using assms by (cases xs) (auto simp: next_answer_def)
  show "next_answer (1::int) (tl xs) \<noteq> -1"
  proof (cases xs)
    case Nil
    then show ?thesis by (simp add: next_answer_def)
  next
    case (Cons a ys)
    with assms show ?thesis by (cases ys) (auto simp: next_answer_def)
  qed
qed

text \<open>
  C5 (amended). In \<open>_pq_copy_in_v3\<close>, for a file object with a \<open>read\<close> whose successive
  answers are two non-empty strings (\<open>"abc"\<close> and \<open>"def"\<close> in the claim) and then the
  empty string, and provided \<open>PQputCopyData\<close> returns -1 for neither chunk and
  \<open>PQputCopyEnd\<close> does not return -1: exactly the two chunks are sent, in order,
  followed by \<open>PQputCopyEnd\<close> with a \<open>NULL\<close> error message; the function returns 1; every
  queued result has been taken from the connection and released (\<open>curs->pgres\<close> is
  \<open>NULL\<close>); and an exception is raised if one of them was \<open>PGRES_FATAL_ERROR\<close>, none
  otherwise.
\<close>

theorem pq_copy_in_v3_two_chunks:
  assumes rd: "has_read (copyfile (curs w))"
    and reads: "read_answers (copyfile (curs w)) = PyString c1 # PyString c2 # PyString [] # rest"
    and ne: "c1 \<noteq> []" "c2 \<noteq> []"
    and small: "int (length c1) \<le> INT_MAX" "int (length c2) \<le> INT_MAX"
    and put: "-1 \<notin> set (take 2 (putCopyData_answers (pgconn (conn w))))"
    and fin: "next_answer 1 (putCopyEnd_answers (pgconn (conn w))) \<noteq> -1"
  shows "fst (pq_copy_in_v3 w) = 1 \<and>
         sent (pgconn (conn (snd (pq_copy_in_v3 w)))) =
           sent (pgconn (conn w)) @ [PutCopyData c1, PutCopyData c2, PutCopyEnd None] \<and>
         result_queue (pgconn (conn (snd (pq_copy_in_v3 w)))) = [] \<and>
         pgres (curs (snd (pq_copy_in_v3 w))) = None \<and>
         ((\<exists>r \<in> set (result_queue (pgconn (conn w))). resultStatus r = PGRES_FATAL_ERROR) \<longrightarrow>
            pyerr (snd (pq_copy_in_v3 w)) \<noteq> None) \<and>
         ((\<forall>r \<in> set (result_queue (pgconn (conn w))). resultStatus r \<noteq> PGRES_FATAL_ERROR) \<longrightarrow>
            pyerr (snd (pq_copy_in_v3 w)) = pyerr w)"
proof -
  let ?a = "chunk_sent c1 w"
  let ?b = "chunk_sent c2 ?a"
  let ?c = "snd (file_read ?b)"
  note p = take_two_answers [OF put]
  note ea = chunk_sent_effect [OF reads]
  note eb = chunk_sent_effect [OF ea(1)]
  note ec = eof_read_effect [OF eb(1)]
  have "copy_in_v3_loop w = copy_in_v3_loop ?a"
    using reads ne small p by (intro copy_in_v3_loop_chunk) auto
  also have "\<dots> = copy_in_v3_loop ?b"
    using ea ne small p by (intro copy_in_v3_loop_chunk) auto
  also have "\<dots> = (0, ?c)"
    using eb by (intro copy_in_v3_loop_eof) auto
  finally have loop: "copy_in_v3_loop w = (0, ?c)" .
  obtain res w2 where pe: "PQputCopyEnd None ?c = (res, w2)"
    by (metis surj_pair)
  have res: "res \<noteq> -1"
    using pe fin ea eb ec by (auto simp: PQputCopyEnd_def)
  have w2: "w2 = on_pgconn (\<lambda>pg. pg\<lparr>putCopyEnd_answers := tl (putCopyEnd_answers pg),
                           sent := sent pg @ [PutCopyEnd None]\<rparr>) ?c"
    using pe by (auto simp: PQputCopyEnd_def)
  have final: "pq_copy_in_v3 w = (1, get_results_loop (set_pgres None w2))"
    using rd loop pe res by (simp add: pq_copy_in_v3_def)
  have sent2: "sent (pgconn (conn w2)) =
      sent (pgconn (conn w)) @ [PutCopyData c1, PutCopyData c2, PutCopyEnd None]"
    using ea eb ec by (simp add: w2 on_pgconn_def)
  have queue2: "result_queue (pgconn (conn w2)) = result_queue (pgconn (conn w))"
    using ea eb ec by (simp add: w2 on_pgconn_def)
  have err2: "pyerr w2 = pyerr w"
    using ea eb ec by (simp add: w2 on_pgconn_def)
  have q: "result_queue (pgconn (conn (set_pgres None w2))) = result_queue (pgconn (conn w))"
    and s: "sent (pgconn (conn (set_pgres None w2))) =
      sent (pgconn (conn w)) @ [PutCopyData c1, PutCopyData c2, PutCopyEnd None]"
    and e: "pyerr (set_pgres None w2) = pyerr w"
    using sent2 queue2 err2 by (simp_all add: set_pgres_def)
  show ?thesis
    using pyerr_get_results_loop_fatal [of "set_pgres None w2"]
          pyerr_get_results_loop_clean [of "set_pgres None w2"] q s e
    by (simp add: final pgconn_get_results_loop curs_get_results_loop)
qed

theorem pq_copy_in_v3_two_chunks_witness:
  "fst (pq_copy_in_v3 abc_def_source) = 1 \<and>
   sent (pgconn (conn (snd (pq_copy_in_v3 abc_def_source)))) =
     [PutCopyData ''abc'', PutCopyData ''def'', PutCopyEnd None] \<and>
   result_queue (pgconn (conn (snd (pq_copy_in_v3 abc_def_source)))) = [] \<and>
   pgres (curs (snd (pq_copy_in_v3 abc_def_source))) = None \<and>
   pyerr (snd (pq_copy_in_v3 abc_def_source)) = None"
  using pq_copy_in_v3_two_chunks [of abc_def_source "''abc''" "''def''" "[]"]
  by (simp add: example_defs abc_def_source_def with_reads_def with_results_def INT_MAX_def)

text \<open>
  The claim as stated fails when the backend does not take the data. If
  \<open>PQputCopyData\<close> returns -1 for the first chunk, only that chunk is sent and the copy
  is ended with an error message, not with the success terminator. If \<open>PQputCopyEnd\<close>
  returns -1, the queued results are not retrieved: the source does not call
  \<open>PQgetResult\<close> then, and the result stays queued.
\<close>

theorem pq_copy_in_v3_backend_refuses:
  "fst (pq_copy_in_v3 (with_putCopyData [-1] abc_def_source)) = -1 \<and>
   sent (pgconn (conn (snd (pq_copy_in_v3 (with_putCopyData [-1] abc_def_source))))) =
     [PutCopyData ''abc'', PutCopyEnd (Some ''error in PQputCopyData() call'')] \<and>
   sent (pgconn (conn (snd (pq_copy_in_v3 (with_putCopyEnd [-1] abc_def_source))))) =
     [PutCopyData ''abc'', PutCopyData ''def'', PutCopyEnd None] \<and>
   result_queue (pgconn (conn (snd (pq_copy_in_v3 (with_putCopyEnd [-1] abc_def_source))))) =
     [command_ok]"
  by (simp add: pq_copy_in_v3_def copy_in_v3_loop.simps file_read_def PQputCopyData_def
      PQputCopyEnd_def set_pgres_def get_results_loop.simps PQgetResult_def Let_def INT_MAX_def
      example_defs abc_def_source_def with_reads_def with_results_def with_putCopyData_def
      with_putCopyEnd_def)

subsection \<open>COPY TO on protocol 3\<close>

lemma copy_out_v3_loop_frame:
  assumes "getCopyData_answers (pgconn (conn w)) = (int (length b), Some b) # rest"
    and "b \<noteq> []"
    and "next_answer True (write_answers (copyfile (curs w)))"
  shows "copy_out_v3_loop w = copy_out_v3_loop (frame_written b w)"
  using assms
  by (subst copy_out_v3_loop.simps)
     (simp add: frame_written_def PQgetCopyData_def file_write_def next_answer_def Let_def
        on_copyfile_def on_pgconn_def)

lemma copy_out_v3_loop_end:
  assumes "getCopyData_answers (pgconn (conn w)) = (n, x) # rest" and "n \<le> 0"
  shows "copy_out_v3_loop w = (Some n, snd (PQgetCopyData w))"
  using assms
  by (subst copy_out_v3_loop.simps)
     (simp add: PQgetCopyData_def next_answer_def)

lemma frame_written_effect:
  assumes "getCopyData_answers (pgconn (conn w)) = a # rest"
    and "next_answer True (write_answers (copyfile (curs w)))"
  shows "getCopyData_answers (pgconn (conn (frame_written b w))) = rest"
    and "write_answers (copyfile (curs (frame_written b w))) = tl (write_answers (copyfile (curs w)))"
    and "written (copyfile (curs (frame_written b w))) = written (copyfile (curs w)) @ [b]"
    and "result_queue (pgconn (conn (frame_written b w))) = result_queue (pgconn (conn w))"
    and "pyerr (frame_written b w) = pyerr w"
  using assms
  by (simp_all add: frame_written_def PQgetCopyData_def file_write_def next_answer_def Let_def
        on_copyfile_def on_pgconn_def)

lemma frame_written_same:
  "connStatus (pgconn (conn (frame_written b w))) = connStatus (pgconn (conn w))"
  "errorMessage (pgconn (conn (frame_written b w))) = errorMessage (pgconn (conn w))"
  "pgres (curs (frame_written b w)) = pgres (curs w)"
  "HAVE_PQPROTOCOL3 (frame_written b w) = HAVE_PQPROTOCOL3 w"
  "protocol (conn (frame_written b w)) = protocol (conn w)"
  "PSYCOPG_EXTENSIONS (frame_written b w) = PSYCOPG_EXTENSIONS w"
  by (simp_all add: frame_written_def PQgetCopyData_def file_write_def Let_def
        on_copyfile_def on_pgconn_def)

lemma end_of_copy_same:
  "connStatus (pgconn (conn (snd (PQgetCopyData w)))) = connStatus (pgconn (conn w))"
  "errorMessage (pgconn (conn (snd (PQgetCopyData w)))) = errorMessage (pgconn (conn w))"
  "HAVE_PQPROTOCOL3 (snd (PQgetCopyData w)) = HAVE_PQPROTOCOL3 w"
  "protocol (conn (snd (PQgetCopyData w))) = protocol (conn w)"
  "PSYCOPG_EXTENSIONS (snd (PQgetCopyData w)) = PSYCOPG_EXTENSIONS w"
  by (simp_all add: PQgetCopyData_def on_pgconn_def)

lemma end_of_copy_effect:
  "result_queue (pgconn (conn (snd (PQgetCopyData w)))) = result_queue (pgconn (conn w))"
  "curs (snd (PQgetCopyData w)) = curs w"
  "pyerr (snd (PQgetCopyData w)) = pyerr w"
  by (simp_all add: PQgetCopyData_def on_pgconn_def)

lemma take_three_writes:
  assumes "False \<notin> set (take 3 xs)"
  shows "next_answer True xs" and "next_answer True (tl xs)" and "next_answer True (tl (tl xs))"
proof -
  show "next_answer True xs"
    using assms by (cases xs) (auto simp: next_answer_def)
  show "next_answer True (tl xs)"
  proof (cases xs)
    case Nil
    then show ?thesis by (simp add: next_answer_def)
  next
    case (Cons a ys)
    with assms show ?thesis by (cases ys) (auto simp: next_answer_def)
  qed
  show "next_answer True (tl (tl xs))"
  proof (cases xs)
    case Nil
    then show ?thesis by (simp add: next_answer_def)
  next
    case one: (Cons a ys)
    show ?thesis
    proof (cases ys)
      case Nil
      with one show ?thesis by (simp add: next_answer_def)
    next
      case (Cons b zs)
      with one assms show ?thesis by (cases zs) (auto simp: next_answer_def)
    qed
  qed
qed

text \<open>
  C6 (amended). In \<open>_pq_copy_out_v3\<close>, for a file object with a \<open>write\<close> whose calls
  succeed, a stream of three non-empty data frames followed by the end of the copy (-1)
  is written to the file frame by frame, in the order received, each frame once; the
  function returns 1, and every pending result has been taken from the connection and
  released, with a database error raised if one of them was \<open>PGRES_FATAL_ERROR\<close> and the
  error indicator left as it was if none was. If the stream ends with -2 instead, the
  function returns -1 after the three frames were written, and the exception it leaves
  is the backend error \<open>pq_raise\<close> makes of the session and the result on the cursor as
  they were at the call: a database error, not the exception of a failing file object.
  The pending results are then left on the connection.
\<close>

theorem pq_copy_out_v3_three_frames:
  assumes wr: "has_write (copyfile (curs w))"
    and frames: "getCopyData_answers (pgconn (conn w)) =
        (int (length b1), Some b1) # (int (length b2), Some b2) # (int (length b3), Some b3)
          # (n, x) # rest"
    and ne: "b1 \<noteq> []" "b2 \<noteq> []" "b3 \<noteq> []"
    and sink: "False \<notin> set (take 3 (write_answers (copyfile (curs w))))"
  shows "(n = -1 \<longrightarrow>
            fst (pq_copy_out_v3 w) = 1 \<and>
            written (copyfile (curs (snd (pq_copy_out_v3 w)))) =
              written (copyfile (curs w)) @ [b1, b2, b3] \<and>
            result_queue (pgconn (conn (snd (pq_copy_out_v3 w)))) = [] \<and>
            pgres (curs (snd (pq_copy_out_v3 w))) = None \<and>
            ((\<exists>r \<in> set (result_queue (pgconn (conn w))). resultStatus r = PGRES_FATAL_ERROR) \<longrightarrow>
               pyerr (snd (pq_copy_out_v3 w)) \<noteq> None \<and>
               database_error (pyerr (snd (pq_copy_out_v3 w)))) \<and>
            ((\<forall>r \<in> set (result_queue (pgconn (conn w))). resultStatus r \<noteq> PGRES_FATAL_ERROR) \<longrightarrow>
               pyerr (snd (pq_copy_out_v3 w)) = pyerr w)) \<and>
         (n = -2 \<longrightarrow>
            fst (pq_copy_out_v3 w) = -1 \<and> pyerr (snd (pq_copy_out_v3 w)) \<noteq> None \<and>
            pyerr (snd (pq_copy_out_v3 w)) = pyerr (pq_raise True None w) \<and>
            database_error (pyerr (snd (pq_copy_out_v3 w))) \<and>
            written (copyfile (curs (snd (pq_copy_out_v3 w)))) =
              written (copyfile (curs w)) @ [b1, b2, b3] \<and>
            result_queue (pgconn (conn (snd (pq_copy_out_v3 w)))) =
              result_queue (pgconn (conn w)))"
proof -
  let ?a = "frame_written b1 w"
  let ?b = "frame_written b2 ?a"
  let ?c = "frame_written b3 ?b"
  let ?d = "snd (PQgetCopyData ?c)"
  note s = take_three_writes [OF sink]
  note ea = frame_written_effect [OF frames s(1), of b1]
  have sb: "next_answer True (write_answers (copyfile (curs ?a)))"
    using s(2) ea(2) by simp
  note eb = frame_written_effect [OF ea(1) sb, of b2]
  have sc: "next_answer True (write_answers (copyfile (curs ?b)))"
    using s(3) ea(2) eb(2) by simp
  note ec = frame_written_effect [OF eb(1) sc, of b3]
  have loop: "copy_out_v3_loop w = (Some n, ?d)" if "n \<le> 0"
  proof -
    have "copy_out_v3_loop w = copy_out_v3_loop ?a"
      using frames ne s(1) by (intro copy_out_v3_loop_frame) auto
    also have "\<dots> = copy_out_v3_loop ?b"
      using ea(1) ne sb by (intro copy_out_v3_loop_frame) auto
    also have "\<dots> = copy_out_v3_loop ?c"
      using eb(1) ne sc by (intro copy_out_v3_loop_frame) auto
    also have "\<dots> = (Some n, ?d)"
      using ec(1) that by (intro copy_out_v3_loop_end) auto
    finally show ?thesis .
  qed
  have written_d: "written (copyfile (curs ?d)) = written (copyfile (curs w)) @ [b1, b2, b3]"
    using ea(3) eb(3) ec(3) by (simp add: end_of_copy_effect)
  have queue_d: "result_queue (pgconn (conn ?d)) = result_queue (pgconn (conn w))"
    using ea(4) eb(4) ec(4) by (simp add: end_of_copy_effect)
  have pyerr_d: "pyerr ?d = pyerr w"
    using ea(5) eb(5) ec(5) by (simp add: end_of_copy_effect)
  have raise_d: "pyerr (pq_raise True None ?d) = pyerr (pq_raise True None w)"
    by (rule pyerr_pq_raise_cong)
       (simp_all add: end_of_copy_same end_of_copy_effect frame_written_same)
  show ?thesis
  proof (intro conjI impI)
    assume n: "n = -1"
    then have final: "pq_copy_out_v3 w = (1, get_results_loop (set_pgres None ?d))"
      using wr loop by (simp add: pq_copy_out_v3_def)
    show "fst (pq_copy_out_v3 w) = 1"
      by (simp add: final)
    show "written (copyfile (curs (snd (pq_copy_out_v3 w)))) =
              written (copyfile (curs w)) @ [b1, b2, b3]"
      using written_d by (simp add: final curs_get_results_loop set_pgres_def)
    show "result_queue (pgconn (conn (snd (pq_copy_out_v3 w)))) = []"
      by (simp add: final pgconn_get_results_loop)
    show "pgres (curs (snd (pq_copy_out_v3 w))) = None"
      by (simp add: final curs_get_results_loop)
    show "pyerr (snd (pq_copy_out_v3 w)) \<noteq> None"
      if "\<exists>r \<in> set (result_queue (pgconn (conn w))). resultStatus r = PGRES_FATAL_ERROR"
      using pyerr_get_results_loop_fatal [of "set_pgres None ?d"] queue_d that
      by (simp add: final set_pgres_def)
    show "database_error (pyerr (snd (pq_copy_out_v3 w)))"
      if "\<exists>r \<in> set (result_queue (pgconn (conn w))). resultStatus r = PGRES_FATAL_ERROR"
      using database_error_get_results_loop_fatal [of "set_pgres None ?d"] queue_d that
      by (simp add: final set_pgres_def)
    show "pyerr (snd (pq_copy_out_v3 w)) = pyerr w"
      if "\<forall>r \<in> set (result_queue (pgconn (conn w))). resultStatus r \<noteq> PGRES_FATAL_ERROR"
      using pyerr_get_results_loop_clean [of "set_pgres None ?d"] queue_d pyerr_d that
      by (simp add: final set_pgres_def)
  next
    assume n: "n = -2"
    then have final: "pq_copy_out_v3 w = (-1, pq_raise True None ?d)"
      using wr loop by (simp add: pq_copy_out_v3_def)
    show "fst (pq_copy_out_v3 w) = -1"
      by (simp add: final)
    show "pyerr (snd (pq_copy_out_v3 w)) \<noteq> None"
      by (simp add: final)
    show "pyerr (snd (pq_copy_out_v3 w)) = pyerr (pq_raise True None w)"
      by (simp add: final raise_d)
    show "database_error (pyerr (snd (pq_copy_out_v3 w)))"
      by (simp add: final database_error_pq_raise)
    show "written (copyfile (curs (snd (pq_copy_out_v3 w)))) =
              written (copyfile (curs w)) @ [b1, b2, b3]"
      using written_d by (simp add: final)
    show "result_queue (pgconn (conn (snd (pq_copy_out_v3 w)))) =
              result_queue (pgconn (conn w))"
      using queue_d by (simp add: final)
  qed
qed

theorem pq_copy_out_v3_three_frames_witness:
  "fst (pq_copy_out_v3 three_frames) = 1 \<and>
   written (copyfile (curs (snd (pq_copy_out_v3 three_frames)))) =
     [''abc'', ''def'', ''ghi''] \<and>
   result_queue (pgconn (conn (snd (pq_copy_out_v3 three_frames)))) = [] \<and>
   pgres (curs (snd (pq_copy_out_v3 three_frames))) = None \<and>
   pyerr (snd (pq_copy_out_v3 three_frames)) = None \<and>
   fst (pq_copy_out_v3 three_frames_then_error) = -1 \<and>
   written (copyfile (curs (snd (pq_copy_out_v3 three_frames_then_error)))) =
     [''abc'', ''def'', ''ghi''] \<and>
   pyerr (snd (pq_copy_out_v3 three_frames_then_error)) =
     Some \<lparr>exc_type = ProgrammingError, exc_msg = Some [], exc_pgerror = Some [],
           exc_pgcode = None\<rparr>"
  using pq_copy_out_v3_three_frames
          [of three_frames "''abc''" "''def''" "''ghi''" "-1" None "[]"]
        pq_copy_out_v3_three_frames
          [of three_frames_then_error "''abc''" "''def''" "''ghi''" "-2" None "[]"]
  by (simp add: example_defs three_frames_def three_frames_then_error_def with_frames_def
      with_results_def pq_raise_def PQstatus_def PQerrorMessage_def psyco_set_error_def
      strip_severity_def strncmp_eq_def Let_def)

text \<open>
  The claim as stated fails when the sink does not take the data: if the second
  \<open>write\<close> raises, the function returns -1 at once; only the first frame has reached
  the file, and the pending result is left on the connection.
\<close>

theorem pq_copy_out_v3_sink_fails:
  "fst (pq_copy_out_v3 (with_writes [True, False] three_frames)) = -1 \<and>
   written (copyfile (curs (snd (pq_copy_out_v3 (with_writes [True, False] three_frames))))) =
     [''abc''] \<and>
   result_queue (pgconn (conn (snd (pq_copy_out_v3 (with_writes [True, False] three_frames))))) =
     [command_ok]"
  by (simp add: pq_copy_out_v3_def copy_out_v3_loop.simps PQgetCopyData_def file_write_def
      Let_def example_defs three_frames_def with_frames_def with_results_def with_writes_def)

end
